theory Spec2Isabelle
  imports Complex_Main "HOL-Library.AList"
begin

section \<open>Common values\<close>

text \<open>
  Timestamps (\<^verbatim>\<open>datetime.utcnow()\<close>) are read from the clock by the source; the model
  takes every clock reading as an argument.
\<close>

type_synonym timestamp = nat

text \<open>
  Every exception the modelled functions raise is a value of this type:
  \<^item> \<open>User_not_found\<close>: the \<^verbatim>\<open>ValueError\<close> of \<^verbatim>\<open>UserModel.add_xp\<close>;
  \<^item> \<open>Int_of_complex\<close>: the \<^verbatim>\<open>TypeError\<close> of \<^verbatim>\<open>int(c)\<close> for a complex \<^verbatim>\<open>c\<close>
    (a negative float raised to the power 0.8 is complex in Python 3);
  \<^item> \<open>Handle_not_configured\<close>: the \<^verbatim>\<open>ValueError\<close> of \<^verbatim>\<open>NewsService.fetch_player_tweets\<close>;
  \<^item> \<open>Key_error\<close>: a missing key read with \<^verbatim>\<open>d[k]\<close>;
  \<^item> \<open>Format_error\<close>: the \<^verbatim>\<open>ValueError\<close> of \<^verbatim>\<open>datetime.fromisoformat\<close>;
  \<^item> \<open>Request_error\<close>: anything \<^verbatim>\<open>requests\<close> raises (network, HTTP status, JSON);
  \<^item> \<open>Invalid_id\<close>: \<^verbatim>\<open>bson.errors.InvalidId\<close> of \<^verbatim>\<open>ObjectId(s)\<close>.
\<close>

datatype error =
    User_not_found int
  | Int_of_complex
  | Handle_not_configured string
  | Key_error string
  | Format_error string
  | Request_error string
  | Invalid_id string

section \<open>Progression, closed form: \<^verbatim>\<open>src/models/user.py\<close>\<close>

record engagement_metrics =
  mission_completions :: int
  survey_completions :: int
  social_shares :: int
  bot_interactions :: int

text \<open>
  The user document of \<^verbatim>\<open>UserModel.create_user\<close>. The free-form fields
  (\<^verbatim>\<open>missions_completed\<close>, \<^verbatim>\<open>surveys_completed\<close>, \<^verbatim>\<open>social_connections\<close>,
  \<^verbatim>\<open>demographics\<close>, \<^verbatim>\<open>preferences\<close>) are never read or written by \<^verbatim>\<open>add_xp\<close>
  and are left out.
\<close>

record user =
  telegram_id :: int
  username :: string
  xp :: int
  level :: int
  engagement :: engagement_metrics
  last_active :: timestamp
  created_at :: timestamp
  updated_at :: timestamp

text \<open>
  The \<^verbatim>\<open>users\<close> collection carries a unique index on \<^verbatim>\<open>telegram_id\<close>
  (\<^verbatim>\<open>Database._setup_indexes\<close>), so it is a map from that key.
\<close>

type_synonym users = "int \<rightharpoonup> user"

definition new_user :: "int \<Rightarrow> string \<Rightarrow> timestamp \<Rightarrow> user" where
  "new_user tid name now =
     \<lparr>telegram_id = tid, username = name, xp = 0, level = 1,
      engagement = \<lparr>mission_completions = 0, survey_completions = 0,
                    social_shares = 0, bot_interactions = 1\<rparr>,
      last_active = now, created_at = now, updated_at = now\<rparr>"

text \<open>\<^verbatim>\<open>insert_one\<close> on a key already present violates the unique index and changes nothing.\<close>

definition create_user :: "users \<Rightarrow> int \<Rightarrow> string \<Rightarrow> timestamp \<Rightarrow> users" where
  "create_user coll tid name now =
     (case coll tid of None \<Rightarrow> coll(tid \<mapsto> new_user tid name now) | Some u \<Rightarrow> coll)"

definition get_user :: "users \<Rightarrow> int \<Rightarrow> user option" where
  "get_user coll tid = coll tid"

text \<open>
  \<^verbatim>\<open>update_user\<close>: \<^verbatim>\<open>$set\<close> of the given fields and of \<^verbatim>\<open>updated_at\<close> on the
  document with that key; no document, no change. The fields to set are a function on
  the document.
\<close>

definition update_user :: "users \<Rightarrow> int \<Rightarrow> (user \<Rightarrow> user) \<Rightarrow> timestamp \<Rightarrow> users" where
  "update_user coll tid update_data now =
     (case coll tid of
        None \<Rightarrow> coll
      | Some u \<Rightarrow> coll(tid \<mapsto> (update_data u)\<lparr>updated_at := now\<rparr>))"

text \<open>\<^verbatim>\<open>{"$inc": {"engagement_metrics.bot_interactions": 1}}\<close>\<close>

definition inc_bot_interactions :: "users \<Rightarrow> int \<Rightarrow> users" where
  "inc_bot_interactions coll tid =
     (case coll tid of
        None \<Rightarrow> coll
      | Some u \<Rightarrow>
          coll(tid \<mapsto> u\<lparr>engagement :=
            (engagement u)\<lparr>bot_interactions := bot_interactions (engagement u) + 1\<rparr>\<rparr>))"

text \<open>
  \<^verbatim>\<open>int((new_xp / 100) ** 0.8)\<close> for \<^verbatim>\<open>new_xp >= 0\<close>: the greatest \<open>k\<close> with
  \<open>k ^ 5 * 100 ^ 4 \<le> new_xp ^ 4\<close>, found by counting up from 0. This is the value of the
  formula in exact arithmetic with the exponent \<open>4/5\<close> (lemma \<open>pow08_floor_real\<close>);
  the source computes it in IEEE doubles, which can differ by one where
  \<open>(new_xp / 100) ^ 0.8\<close> is within rounding distance of an integer, and which do not
  reach beyond \<open>1.8 * 10 ^ 308\<close>.
\<close>

function level_search :: "int \<Rightarrow> int \<Rightarrow> int" where
  "level_search x k =
     (if (k + 1) ^ 5 * 100 ^ 4 \<le> x ^ 4 then level_search x (k + 1) else k)"
  by pat_completeness auto
termination
proof (relation "measure (\<lambda>(x, k). nat (\<bar>x\<bar> - k))")
  show "wf (measure (\<lambda>(x::int, k::int). nat (\<bar>x\<bar> - k)))" by simp
next
  fix x k :: int
  assume le: "(k + 1) ^ 5 * 100 ^ 4 \<le> x ^ 4"
  have "k < \<bar>x\<bar>"
  proof (rule ccontr)
    assume "\<not> k < \<bar>x\<bar>"
    then have xk: "\<bar>x\<bar> \<le> k + 1" and k0: "0 \<le> k" by simp_all
    have "x ^ 4 = \<bar>x\<bar> ^ 4" by simp
    also have "\<dots> \<le> (k + 1) ^ 4" using xk by (intro power_mono) simp_all
    also have "\<dots> \<le> (k + 1) ^ 4 * (k + 1)" using k0 by (simp add: mult_le_cancel_left1)
    also have "\<dots> = (k + 1) ^ 5" by (simp add: power_numeral_reduce)
    also have "\<dots> < (k + 1) ^ 5 * 100 ^ 4" using k0 by simp
    finally show False using le by simp
  qed
  then show "((x, k + 1), (x, k)) \<in> measure (\<lambda>(x, k). nat (\<bar>x\<bar> - k))" by simp
qed

declare level_search.simps [simp del]

definition pow08_floor :: "int \<Rightarrow> int" where
  "pow08_floor x = level_search x 0"

text \<open>
  \<^verbatim>\<open>1 + int((new_xp / 100) ** 0.8)\<close>. For a negative \<^verbatim>\<open>new_xp\<close> the power is a complex
  number and \<^verbatim>\<open>int\<close> raises \<^verbatim>\<open>TypeError\<close>.
\<close>

definition closed_form_level :: "int \<Rightarrow> error + int" where
  "closed_form_level new_xp =
     (if new_xp < 0 then Inl Int_of_complex else Inr (1 + pow08_floor new_xp))"

record xp_result =
  current_xp :: int
  new_level :: int
  level_up :: bool
  previous_level :: "int option"

text \<open>
  \<^verbatim>\<open>UserModel.add_xp\<close>. The result is the collection after the call and either the
  exception raised or the dictionary returned. \<open>now1\<close> is the clock reading stored in
  \<^verbatim>\<open>last_active\<close>, \<open>now2\<close> the one \<^verbatim>\<open>update_user\<close> stores in \<^verbatim>\<open>updated_at\<close>.
  Both exceptions are raised before the first write.
\<close>

definition add_xp ::
  "users \<Rightarrow> int \<Rightarrow> int \<Rightarrow> timestamp \<Rightarrow> timestamp \<Rightarrow> users \<times> (error + xp_result)" where
  "add_xp coll tid xp_amount now1 now2 =
     (case get_user coll tid of
        None \<Rightarrow> (coll, Inl (User_not_found tid))
      | Some u \<Rightarrow>
          (let cur = xp u;
               new_xp = cur + xp_amount
           in case closed_form_level new_xp of
                Inl e \<Rightarrow> (coll, Inl e)
              | Inr lvl \<Rightarrow>
                  (let up = (lvl > level u);
                       coll1 = update_user coll tid
                                 (\<lambda>d. d\<lparr>xp := new_xp, level := lvl, last_active := now1\<rparr>) now2;
                       coll2 = inc_bot_interactions coll1 tid
                   in (coll2,
                       Inr \<lparr>current_xp = new_xp, new_level = lvl, level_up = up,
                            previous_level = (if up then Some (level u) else None)\<rparr>))))"

section \<open>Progression, thresholds: \<^verbatim>\<open>src/services/user_service.py\<close>\<close>

text \<open>
  The document of \<^verbatim>\<open>UserService.create_user\<close>, keyed by \<^verbatim>\<open>user_id\<close>. The counters
  \<^verbatim>\<open>missions_completed\<close>, \<^verbatim>\<open>surveys_completed\<close> and the list
  \<^verbatim>\<open>connected_platforms\<close> are never touched by \<^verbatim>\<open>update_user_xp\<close> and are left out.
\<close>

record profile =
  user_id :: int
  profile_name :: string
  profile_level :: int
  profile_xp :: int
  xp_to_next_level :: int
  member_since :: timestamp
  last_interaction :: timestamp
  profile_engagement :: engagement_metrics

type_synonym profiles = "int \<rightharpoonup> profile"

definition new_profile :: "int \<Rightarrow> string \<Rightarrow> timestamp \<Rightarrow> timestamp \<Rightarrow> profile" where
  "new_profile uid name now1 now2 =
     \<lparr>user_id = uid, profile_name = name, profile_level = 1, profile_xp = 0,
      xp_to_next_level = 100, member_since = now1, last_interaction = now2,
      profile_engagement = \<lparr>mission_completions = 0, survey_completions = 0,
                            social_shares = 0, bot_interactions = 0\<rparr>\<rparr>"

definition get_user_profile :: "profiles \<Rightarrow> int \<Rightarrow> profile option" where
  "get_user_profile coll uid = coll uid"

text \<open>
  \<^verbatim>\<open>int(xp_to_next * 1.5)\<close>: the product is a float and \<^verbatim>\<open>int\<close> truncates towards
  zero. The product is exact in doubles below \<open>2 ^ 52\<close>; above, the source rounds it.
\<close>

definition times_1_5 :: "int \<Rightarrow> int" where
  "times_1_5 n = (if 0 \<le> n then (3 * n) div 2 else - ((3 * (- n)) div 2))"

text \<open>
  The \<^verbatim>\<open>while new_xp >= xp_to_next\<close> loop on \<^verbatim>\<open>(new_xp, new_level, xp_to_next)\<close>.
  It does not end for every document (a threshold of 0 is never exceeded), so it is a
  partial function: \<open>None\<close> is a loop that runs forever.
\<close>

partial_function (option) level_loop :: "int \<Rightarrow> int \<Rightarrow> int \<Rightarrow> (int \<times> int \<times> int) option" where
  "level_loop new_xp lvl xp_to_next =
     (if new_xp \<ge> xp_to_next
      then level_loop (new_xp - xp_to_next) (lvl + 1) (times_1_5 xp_to_next)
      else Some (new_xp, lvl, xp_to_next))"

text \<open>
  \<^verbatim>\<open>UserService.update_user_xp\<close>: \<open>None\<close> when the loop never ends; otherwise the
  collection after the call and the value returned, which is \<^verbatim>\<open>None\<close> for an unknown
  user and the stored document, read again, for a known one.
\<close>

definition update_user_xp ::
  "profiles \<Rightarrow> int \<Rightarrow> int \<Rightarrow> timestamp \<Rightarrow> (profiles \<times> profile option) option" where
  "update_user_xp coll uid xp_gained now =
     (case get_user_profile coll uid of
        None \<Rightarrow> Some (coll, None)
      | Some u \<Rightarrow>
          (case level_loop (profile_xp u + xp_gained) (profile_level u) (xp_to_next_level u) of
             None \<Rightarrow> None
           | Some (new_xp, lvl, xp_to_next) \<Rightarrow>
               (let coll' = coll(uid \<mapsto> u\<lparr>profile_xp := new_xp, profile_level := lvl,
                                           xp_to_next_level := xp_to_next,
                                           last_interaction := now\<rparr>)
                in Some (coll', get_user_profile coll' uid))))"

text \<open>
  \<^verbatim>\<open>UserService.create_user\<close>. The collection is read through \<^verbatim>\<open>find_one\<close> and written
  through \<^verbatim>\<open>update_one\<close>, which both act on the first document with the given
  \<^verbatim>\<open>user_id\<close>; the map holds that document, and a second insertion under the same
  \<^verbatim>\<open>user_id\<close> does not replace it.
\<close>

definition create_profile :: "profiles \<Rightarrow> int \<Rightarrow> string \<Rightarrow> timestamp \<Rightarrow> timestamp \<Rightarrow> profiles" where
  "create_profile coll uid name now1 now2 =
     (case coll uid of None \<Rightarrow> coll(uid \<mapsto> new_profile uid name now1 now2) | Some p \<Rightarrow> coll)"

subsection \<open>The collections that the two services can produce\<close>



subsection \<open>Example documents\<close>



definition example_users :: users where
  "example_users = create_user Map.empty 7 ''fan'' 0"

definition fresh_profiles :: profiles where
  "fresh_profiles = create_profile Map.empty 7 ''fan'' 0 0"

section \<open>Survey aggregation: \<^verbatim>\<open>src/services/survey_service.py\<close>\<close>

subsection \<open>Answers\<close>

text \<open>
  An answer is a scalar or a list of scalars (\<^verbatim>\<open>isinstance(answer, list)\<close>); the scalars
  are \<^verbatim>\<open>None\<close>, booleans, integers and strings. An answer that is missing from a
  response is \<^verbatim>\<open>None\<close>, as \<^verbatim>\<open>dict.get\<close> returns it. Floating-point numbers, and
  lists or mappings nested in an answer (which \<^verbatim>\<open>in option_counts\<close> cannot hash), are
  not answers of this data model.
\<close>

datatype scalar = SNone | SBool bool | SInt int | SStr string

datatype answer = Scalar scalar | Multi "scalar list"

text \<open>\<^verbatim>\<open>str(i)\<close> for the index \<^verbatim>\<open>i\<close> of \<^verbatim>\<open>enumerate\<close>: the decimal digits.\<close>

fun str_nat :: "nat \<Rightarrow> string" where
  "str_nat n =
     (if n < 10 then [''0123456789'' ! n]
      else str_nat (n div 10) @ [''0123456789'' ! (n mod 10)])"

declare str_nat.simps [simp del]

text \<open>
  \<^verbatim>\<open>int(s)\<close> for a string: white space around, an optional sign, then decimal digits,
  where single underscores may separate digits; anything else is a \<^verbatim>\<open>ValueError\<close>
  (\<open>None\<close>). Characters are bytes here, so digits and spaces beyond ASCII, which
  Python also accepts, are outside the model.
\<close>

definition is_space :: "char \<Rightarrow> bool" where
  "is_space c = (let n = (of_char c :: nat) in (9 \<le> n \<and> n \<le> 13) \<or> (28 \<le> n \<and> n \<le> 32))"

definition is_digit :: "char \<Rightarrow> bool" where
  "is_digit c = (let n = (of_char c :: nat) in 48 \<le> n \<and> n \<le> 57)"

definition digit_value :: "char \<Rightarrow> nat" where
  "digit_value c = of_char c - 48"

definition strip :: "string \<Rightarrow> string" where
  "strip s = rev (dropWhile is_space (rev (dropWhile is_space s)))"

text \<open>
  \<open>parse_digits prev acc s\<close>: \<open>prev\<close> says that the character before was a digit, which
  is what an underscore and the end of the string both need.
\<close>

fun parse_digits :: "bool \<Rightarrow> nat \<Rightarrow> string \<Rightarrow> nat option" where
  "parse_digits prev acc [] = (if prev then Some acc else None)"
| "parse_digits prev acc (c # cs) =
     (if is_digit c then parse_digits True (acc * 10 + digit_value c) cs
      else if c = CHR ''_'' \<and> prev then parse_digits False acc cs
      else None)"

definition int_of_string :: "string \<Rightarrow> int option" where
  "int_of_string s =
     (case strip s of
        [] \<Rightarrow> None
      | c # cs \<Rightarrow>
          if c = CHR ''-'' then map_option (\<lambda>n. - int n) (parse_digits False 0 cs)
          else if c = CHR ''+'' then map_option int (parse_digits False 0 cs)
          else map_option int (parse_digits False 0 (c # cs)))"

text \<open>
  \<^verbatim>\<open>int(answer)\<close>; \<open>None\<close> is the \<^verbatim>\<open>ValueError\<close> or \<^verbatim>\<open>TypeError\<close> that the source
  catches. \<^verbatim>\<open>int(True)\<close> is 1; \<^verbatim>\<open>int\<close> of \<^verbatim>\<open>None\<close> or of a list is a \<^verbatim>\<open>TypeError\<close>.
\<close>

fun py_int :: "answer \<Rightarrow> int option" where
  "py_int (Scalar SNone) = None"
| "py_int (Scalar (SBool b)) = Some (if b then 1 else 0)"
| "py_int (Scalar (SInt i)) = Some i"
| "py_int (Scalar (SStr s)) = int_of_string s"
| "py_int (Multi xs) = None"

text \<open>Truth value of an answer, for \<^verbatim>\<open>if answer:\<close>.\<close>

fun truthy :: "answer \<Rightarrow> bool" where
  "truthy (Scalar SNone) = False"
| "truthy (Scalar (SBool b)) = b"
| "truthy (Scalar (SInt i)) = (i \<noteq> 0)"
| "truthy (Scalar (SStr s)) = (s \<noteq> [])"
| "truthy (Multi xs) = (xs \<noteq> [])"

subsection \<open>Surveys and responses\<close>

text \<open>
  A question definition; \<^verbatim>\<open>options\<close> is absent for text and scale questions
  (\<^verbatim>\<open>question.get("options", [])\<close>). The bounds \<^verbatim>\<open>min\<close> and \<^verbatim>\<open>max\<close> of a scale question
  are stored and never read by the aggregation.
\<close>

record question =
  q_text :: string
  q_type :: string
  q_options :: "string list option"
  q_min :: "int option"
  q_max :: "int option"

record survey =
  title :: string
  questions :: "question list"

text \<open>
  A response document of \<^verbatim>\<open>record_survey_response\<close>; \<^verbatim>\<open>responses\<close> is the dictionary
  from \<^verbatim>\<open>str(i)\<close> to the answer to question \<^verbatim>\<open>i\<close>, kept as an association list.
\<close>

record response =
  survey_id :: string
  respondent :: int
  responses :: "(string \<times> answer) list"
  answered_at :: timestamp

record survey_db =
  surveys :: "string \<rightharpoonup> survey"
  survey_responses :: "response list"

text \<open>\<^verbatim>\<open>response["responses"].get(str(i))\<close>\<close>

definition get_answer :: "response \<Rightarrow> nat \<Rightarrow> answer" where
  "get_answer r i = (case map_of (responses r) (str_nat i) of None \<Rightarrow> Scalar SNone | Some a \<Rightarrow> a)"

subsection \<open>Per-question results\<close>

text \<open>
  The dictionary \<^verbatim>\<open>question_results\<close>; a key that the source does not set is \<open>None\<close>.
  Python dictionaries keep insertion order, so \<^verbatim>\<open>option_counts\<close> and
  \<^verbatim>\<open>distribution\<close> are association lists, updated in place or extended at the end
  (\<open>AList.update\<close>).
\<close>

record question_results =
  qr_question :: string
  qr_type :: string
  option_counts :: "(string \<times> nat) list option"
  text_answers :: "answer list option"
  average :: "real option"
  minimum :: "int option"
  maximum :: "int option"
  distribution :: "(int \<times> nat) list option"

text \<open>\<^verbatim>\<open>question.get("options", [])\<close>\<close>

definition declared_options :: "question \<Rightarrow> string list" where
  "declared_options q = (case q_options q of None \<Rightarrow> [] | Some opts \<Rightarrow> opts)"

text \<open>\<^verbatim>\<open>{option: 0 for option in options}\<close>\<close>

definition zero_counts :: "string list \<Rightarrow> (string \<times> nat) list" where
  "zero_counts opts = fold (\<lambda>opt d. AList.update opt 0 d) opts []"

text \<open>
  \<^verbatim>\<open>if selected in option_counts: option_counts[selected] += 1\<close>. The keys are
  strings, so only a string can be one of them.
\<close>

fun count_selected :: "scalar \<Rightarrow> (string \<times> nat) list \<Rightarrow> (string \<times> nat) list" where
  "count_selected (SStr s) d =
     (case map_of d s of None \<Rightarrow> d | Some c \<Rightarrow> AList.update s (c + 1) d)"
| "count_selected v d = d"

text \<open>The body of \<^verbatim>\<open>for response in responses\<close> in the choice branch.\<close>

fun count_answer :: "answer \<Rightarrow> (string \<times> nat) list \<Rightarrow> (string \<times> nat) list" where
  "count_answer (Multi xs) d = fold count_selected xs d"
| "count_answer (Scalar v) d = count_selected v d"

definition choice_counts :: "nat \<Rightarrow> string list \<Rightarrow> response list \<Rightarrow> (string \<times> nat) list" where
  "choice_counts i opts rs = fold (\<lambda>r d. count_answer (get_answer r i) d) rs (zero_counts opts)"

text \<open>The text branch: the answers that are true, in the order of the responses.\<close>

definition collect_text :: "nat \<Rightarrow> response list \<Rightarrow> answer list" where
  "collect_text i rs = filter truthy (map (\<lambda>r. get_answer r i) rs)"

text \<open>
  The scale branch: \<^verbatim>\<open>scale_answers\<close>, the integers of the answers that are not
  \<^verbatim>\<open>None\<close> and that \<^verbatim>\<open>int\<close> accepts.
\<close>

definition scale_answers :: "nat \<Rightarrow> response list \<Rightarrow> int list" where
  "scale_answers i rs =
     List.map_filter (\<lambda>r. if get_answer r i = Scalar SNone then None else py_int (get_answer r i)) rs"

text \<open>
  \<^verbatim>\<open>sum(scale_answers) / len(scale_answers)\<close> is a float in the source, the quotient
  rounded to the nearest double; here it is the exact quotient.
\<close>

definition mean :: "int list \<Rightarrow> real" where
  "mean xs = real_of_int (sum_list xs) / real (length xs)"

text \<open>\<^verbatim>\<open>min\<close> and \<^verbatim>\<open>max\<close> of a list that is not empty.\<close>

definition py_min :: "int list \<Rightarrow> int" where
  "py_min xs = fold min (tl xs) (hd xs)"

definition py_max :: "int list \<Rightarrow> int" where
  "py_max xs = fold max (tl xs) (hd xs)"

text \<open>\<^verbatim>\<open>distribution[value] = distribution.get(value, 0) + 1\<close>, for every value in turn.\<close>

definition tally :: "int \<Rightarrow> (int \<times> nat) list \<Rightarrow> (int \<times> nat) list" where
  "tally v d = AList.update v ((case map_of d v of None \<Rightarrow> 0 | Some c \<Rightarrow> c) + 1) d"

definition histogram :: "int list \<Rightarrow> (int \<times> nat) list" where
  "histogram xs = fold tally xs []"

text \<open>
  The body of \<^verbatim>\<open>for i, question in enumerate(survey["questions"])\<close>. A type other than
  the four known ones sets no key beyond \<^verbatim>\<open>question\<close> and \<^verbatim>\<open>type\<close>.
\<close>

definition question_result :: "nat \<Rightarrow> question \<Rightarrow> response list \<Rightarrow> question_results" where
  "question_result i q rs =
     (let base = \<lparr>qr_question = q_text q, qr_type = q_type q, option_counts = None,
                  text_answers = None, average = None, minimum = None, maximum = None,
                  distribution = None\<rparr>
      in if q_type q \<in> set [''multiple_choice'', ''single_choice'']
         then base\<lparr>option_counts :=
                Some (choice_counts i (declared_options q) rs)\<rparr>
         else if q_type q = ''text''
         then base\<lparr>text_answers := Some (collect_text i rs)\<rparr>
         else if q_type q = ''scale''
         then (let xs = scale_answers i rs
               in if xs \<noteq> []
                  then base\<lparr>average := Some (mean xs), minimum := Some (py_min xs),
                            maximum := Some (py_max xs), distribution := Some (histogram xs)\<rparr>
                  else base)
         else base)"

record survey_results =
  survey_title :: string
  total_responses :: nat
  question_list :: "question_results list"

text \<open>The aggregation proper: one result per question, in the order of the definition.\<close>

definition aggregate :: "survey \<Rightarrow> response list \<Rightarrow> survey_results" where
  "aggregate s rs =
     \<lparr>survey_title = title s, total_responses = length rs,
      question_list = map (\<lambda>(i, q). question_result i q rs) (enumerate 0 (questions s))\<rparr>"

text \<open>
  \<^verbatim>\<open>ObjectId(survey_id)\<close> accepts 24 hexadecimal digits and raises \<^verbatim>\<open>InvalidId\<close>
  otherwise.
\<close>

definition is_hex :: "char \<Rightarrow> bool" where
  "is_hex c = (let n = (of_char c :: nat)
               in (48 \<le> n \<and> n \<le> 57) \<or> (65 \<le> n \<and> n \<le> 70) \<or> (97 \<le> n \<and> n \<le> 102))"

definition valid_object_id :: "string \<Rightarrow> bool" where
  "valid_object_id s = (length s = 24 \<and> list_all is_hex s)"

text \<open>
  \<^verbatim>\<open>SurveyService.get_survey_results\<close>: the survey is looked up, the responses with
  its id are read, and the aggregation runs on them. An unknown survey is the value
  \<^verbatim>\<open>{"error": ...}\<close>, here \<open>None\<close>; an invalid id is raised again after logging.
\<close>

definition get_survey_results :: "survey_db \<Rightarrow> string \<Rightarrow> error + survey_results option" where
  "get_survey_results db sid =
     (if \<not> valid_object_id sid then Inl (Invalid_id sid)
      else case surveys db sid of
             None \<Rightarrow> Inr None
           | Some s \<Rightarrow>
               Inr (Some (aggregate s (filter (\<lambda>r. survey_id r = sid) (survey_responses db)))))"

subsection \<open>Example survey and responses\<close>

text \<open>
  The members of an answer that the choice branch looks at: those of a list, or the
  answer itself.
\<close>

definition selections :: "answer \<Rightarrow> scalar list" where
  "selections a = (case a of Multi xs \<Rightarrow> xs | Scalar v \<Rightarrow> [v])"

definition example_id :: string where
  "example_id = ''65f0a1b2c3d4e5f601234567''"

text \<open>A response that answers question 0 only.\<close>

definition answering :: "answer \<Rightarrow> response" where
  "answering a = \<lparr>survey_id = example_id, respondent = 1,
                  responses = [(''0'', a)], answered_at = 0\<rparr>"

definition choice_example :: "response list" where
  "choice_example =
     [answering (Multi [SStr ''A'', SStr ''B'']), answering (Multi [SStr ''B'']),
      answering (Multi [SStr ''C'', SStr ''A''])]"


definition choice_question :: question where
  "choice_question = \<lparr>q_text = ''Which?'', q_type = ''multiple_choice'',
                       q_options = Some [''A'', ''B'', ''C''], q_min = None, q_max = None\<rparr>"

definition scale_question :: question where
  "scale_question = \<lparr>q_text = ''How much?'', q_type = ''scale'',
                      q_options = None, q_min = Some 1, q_max = Some 10\<rparr>"

definition text_question :: question where
  "text_question = \<lparr>q_text = ''Why?'', q_type = ''text'',
                     q_options = None, q_min = None, q_max = None\<rparr>"

definition example_survey :: survey where
  "example_survey = \<lparr>title = ''Feedback'',
                      questions = [choice_question, scale_question, text_question]\<rparr>"

definition example_db :: survey_db where
  "example_db = \<lparr>surveys = Map.empty(example_id \<mapsto> example_survey), survey_responses = []\<rparr>"

section \<open>Content registry and ingestion: \<^verbatim>\<open>players_service.py\<close>, \<^verbatim>\<open>news_service.py\<close>\<close>

subsection \<open>The registry of player handles\<close>

text \<open>
  \<^verbatim>\<open>PlayerService.players\<close> is the JSON object of \<^verbatim>\<open>config/players.json\<close>: for a
  player id, an object with the keys \<^verbatim>\<open>twitter\<close> and \<^verbatim>\<open>instagram_id\<close>. It is
  the empty object when the file cannot be read.
\<close>

type_synonym registry = "(string \<times> (string \<times> string) list) list"

text \<open>\<^verbatim>\<open>self.players.get(player_id, {}).get("twitter")\<close>\<close>

definition get_twitter_handle :: "registry \<Rightarrow> string \<Rightarrow> string option" where
  "get_twitter_handle players pid =
     (case map_of players pid of None \<Rightarrow> None | Some entry \<Rightarrow> map_of entry ''twitter'')"

subsection \<open>Posts and the two collections\<close>

text \<open>
  A stored post. \<^verbatim>\<open>player_id\<close> is a key of player posts only; \<^verbatim>\<open>timestamp\<close> and
  \<^verbatim>\<open>text\<close> are the fields \<open>posted_at\<close> and \<open>body\<close>.
\<close>

record post =
  player_id :: "string option"
  source :: string
  post_id :: string
  posted_at :: timestamp
  body :: string
  media :: "string list"
  url :: string

text \<open>
  An item of the \<^verbatim>\<open>data\<close> array that the tweets endpoint returns. \<^verbatim>\<open>t["id"]\<close> and
  \<^verbatim>\<open>t["created_at"]\<close> raise \<^verbatim>\<open>KeyError\<close> when the key is missing,
  \<^verbatim>\<open>t.get("text", "")\<close> does not.
\<close>

record tweet =
  tweet_id :: "string option"
  tweet_created_at :: "string option"
  tweet_text :: "string option"

text \<open>
  The two calls to the external API, as the functions they are at the time of the
  call: from a user name to the user id (\<^verbatim>\<open>_get_twitter_user_id\<close>) and from a user id to
  the \<^verbatim>\<open>data\<close> array of recent tweets (absent \<^verbatim>\<open>data\<close> is the empty list). Either can
  fail (\<^verbatim>\<open>raise_for_status\<close>, a network error, a malformed body).
\<close>

record twitter_api =
  user_by_username :: "string \<Rightarrow> error + string"
  user_tweets :: "string \<Rightarrow> error + tweet list"

text \<open>What the service writes to its logger.\<close>

datatype log_entry =
    Team_tweets_stored nat
  | Team_tweets_error error
  | Player_tweets_fetched string nat
  | Player_tweets_error string error

record news_state =
  team_news :: "post list"
  player_news :: "post list"
  news_log :: "log_entry list"

text \<open>
  What a caller of a method observes apart from the state: the value returned, or the
  exception that leaves the method.
\<close>

datatype 'a outcome = Returned 'a | Raised error

text \<open>
  \<^verbatim>\<open>update_one(filter, {"$setOnInsert": doc}, upsert=True)\<close>: when a document matches
  the filter nothing is written; when none does, one document is inserted, made of the
  equality fields of the filter and the fields of \<^verbatim>\<open>doc\<close>. In both calls of the source
  the fields of the filter are fields of \<^verbatim>\<open>doc\<close> with the same values, so the
  document inserted is \<^verbatim>\<open>doc\<close>.
\<close>

definition update_one_set_on_insert :: "(post \<Rightarrow> bool) \<Rightarrow> post \<Rightarrow> post list \<Rightarrow> post list" where
  "update_one_set_on_insert matches doc coll = (if list_ex matches coll then coll else coll @ [doc])"

text \<open>\<^verbatim>\<open>s.replace('Z', '+00:00')\<close>\<close>

definition replace_Z :: "string \<Rightarrow> string" where
  "replace_Z s = concat (map (\<lambda>c. if c = CHR ''Z'' then ''+00:00'' else [c]) s)"

definition team_twitter_username :: string where
  "team_twitter_username = ''FURIA''"

text \<open>
  The uniqueness keys of the two collections: the fields that the filters of the two
  upserts compare.
\<close>

definition team_key :: "post \<Rightarrow> string \<times> string" where
  "team_key d = (source d, post_id d)"

definition player_key :: "post \<Rightarrow> string option \<times> string" where
  "player_key d = (player_id d, post_id d)"

subsection \<open>\<^verbatim>\<open>fetch_team_tweets\<close>\<close>

text \<open>
  The loop \<^verbatim>\<open>for t in tweets\<close>, with \<^verbatim>\<open>datetime.fromisoformat\<close> as the argument
  \<open>parse\<close>. The first exception ends the loop; what was stored before stays stored.
  The result is the collection and the exception, if any.
\<close>

fun store_team_tweets ::
  "(string \<Rightarrow> error + timestamp) \<Rightarrow> tweet list \<Rightarrow> post list \<Rightarrow> post list \<times> error option" where
  "store_team_tweets parse [] coll = (coll, None)"
| "store_team_tweets parse (t # ts) coll =
     (case tweet_id t of
        None \<Rightarrow> (coll, Some (Key_error ''id''))
      | Some tid \<Rightarrow>
          (case tweet_created_at t of
             None \<Rightarrow> (coll, Some (Key_error ''created_at''))
           | Some created \<Rightarrow>
               (case parse (replace_Z created) of
                  Inl e \<Rightarrow> (coll, Some e)
                | Inr time \<Rightarrow>
                    store_team_tweets parse ts
                      (update_one_set_on_insert
                         (\<lambda>d. source d = ''twitter'' \<and> post_id d = tid)
                         \<lparr>player_id = None, source = ''twitter'', post_id = tid,
                          posted_at = time,
                          body = (case tweet_text t of None \<Rightarrow> [] | Some s \<Rightarrow> s),
                          media = [],
                          url = ''https://twitter.com/'' @ team_twitter_username
                                  @ ''/status/'' @ tid\<rparr>
                         coll))))"

text \<open>
  The handler \<^verbatim>\<open>except Exception as e\<close>: the exception is logged and the method ends,
  returning \<^verbatim>\<open>None\<close>.
\<close>

definition team_tweets_failed :: "error \<Rightarrow> news_state \<Rightarrow> unit outcome \<times> news_state" where
  "team_tweets_failed e st = (Returned (), st\<lparr>news_log := news_log st @ [Team_tweets_error e]\<rparr>)"

definition fetch_team_tweets ::
  "twitter_api \<Rightarrow> (string \<Rightarrow> error + timestamp) \<Rightarrow> news_state \<Rightarrow> unit outcome \<times> news_state" where
  "fetch_team_tweets api parse st =
     (case user_by_username api team_twitter_username of
        Inl e \<Rightarrow> team_tweets_failed e st
      | Inr uid \<Rightarrow>
          (case user_tweets api uid of
             Inl e \<Rightarrow> team_tweets_failed e st
           | Inr tweets \<Rightarrow>
               (case store_team_tweets parse tweets (team_news st) of
                  (coll, Some e) \<Rightarrow> team_tweets_failed e (st\<lparr>team_news := coll\<rparr>)
                | (coll, None) \<Rightarrow>
                    (Returned (), st\<lparr>team_news := coll,
                                     news_log := news_log st
                                       @ [Team_tweets_stored (length tweets)]\<rparr>))))"

subsection \<open>\<^verbatim>\<open>fetch_player_tweets\<close>\<close>

fun store_player_tweets ::
  "(string \<Rightarrow> error + timestamp) \<Rightarrow> string \<Rightarrow> string \<Rightarrow> tweet list \<Rightarrow> post list
     \<Rightarrow> post list \<times> error option" where
  "store_player_tweets parse pid handle [] coll = (coll, None)"
| "store_player_tweets parse pid handle (t # ts) coll =
     (case tweet_id t of
        None \<Rightarrow> (coll, Some (Key_error ''id''))
      | Some tid \<Rightarrow>
          (case tweet_created_at t of
             None \<Rightarrow> (coll, Some (Key_error ''created_at''))
           | Some created \<Rightarrow>
               (case parse (replace_Z created) of
                  Inl e \<Rightarrow> (coll, Some e)
                | Inr time \<Rightarrow>
                    store_player_tweets parse pid handle ts
                      (update_one_set_on_insert
                         (\<lambda>d. player_id d = Some pid \<and> post_id d = tid)
                         \<lparr>player_id = Some pid, source = ''twitter'', post_id = tid,
                          posted_at = time,
                          body = (case tweet_text t of None \<Rightarrow> [] | Some s \<Rightarrow> s),
                          media = [],
                          url = ''https://twitter.com/'' @ handle @ ''/status/'' @ tid\<rparr>
                         coll))))"

text \<open>
  The handler \<^verbatim>\<open>except Exception as e\<close> of \<^verbatim>\<open>fetch_player_tweets\<close>: the exception
  is logged with the player id and the method ends, returning \<^verbatim>\<open>None\<close>.
\<close>

definition player_tweets_failed ::
  "string \<Rightarrow> error \<Rightarrow> news_state \<Rightarrow> unit outcome \<times> news_state" where
  "player_tweets_failed pid e st =
     (Returned (), st\<lparr>news_log := news_log st @ [Player_tweets_error pid e]\<rparr>)"

text \<open>
  \<^verbatim>\<open>if not handle: raise ValueError(...)\<close> stands inside the \<^verbatim>\<open>try\<close>, so this
  exception reaches the same handler as every other one. The method returns \<^verbatim>\<open>None\<close>
  on every path.
\<close>

definition fetch_player_tweets ::
  "twitter_api \<Rightarrow> (string \<Rightarrow> error + timestamp) \<Rightarrow> registry \<Rightarrow> string \<Rightarrow> news_state
     \<Rightarrow> unit outcome \<times> news_state" where
  "fetch_player_tweets api parse players pid st =
     (case get_twitter_handle players pid of
        None \<Rightarrow> player_tweets_failed pid (Handle_not_configured pid) st
      | Some handle \<Rightarrow>
          if handle = [] then player_tweets_failed pid (Handle_not_configured pid) st
          else
            (case user_by_username api handle of
               Inl e \<Rightarrow> player_tweets_failed pid e st
             | Inr uid \<Rightarrow>
                 (case user_tweets api uid of
                    Inl e \<Rightarrow> player_tweets_failed pid e st
                  | Inr tweets \<Rightarrow>
                      (case store_player_tweets parse pid handle tweets (player_news st) of
                         (coll, Some e) \<Rightarrow> player_tweets_failed pid e (st\<lparr>player_news := coll\<rparr>)
                       | (coll, None) \<Rightarrow>
                           (Returned (), st\<lparr>player_news := coll,
                                            news_log := news_log st
                                              @ [Player_tweets_fetched pid (length tweets)]\<rparr>)))))"

text \<open>An item that the loop stores: both keys present and a time stamp that parses.\<close>

definition storable :: "(string \<Rightarrow> error + timestamp) \<Rightarrow> tweet \<Rightarrow> bool" where
  "storable parse t =
     (case (tweet_id t, tweet_created_at t) of
        (Some tid, Some created) \<Rightarrow> (case parse (replace_Z created) of Inl e \<Rightarrow> False | Inr time \<Rightarrow> True)
      | _ \<Rightarrow> False)"

subsection \<open>Example registry, API answers and state\<close>

definition example_registry :: registry where
  "example_registry = [(''fallen'', [(''twitter'', ''FalleNCS'')]), (''molodoy'', [])]"

definition api_unavailable :: twitter_api where
  "api_unavailable = \<lparr>user_by_username = (\<lambda>name. Inl (Request_error ''503'')),
                       user_tweets = (\<lambda>uid. Inl (Request_error ''503''))\<rparr>"

definition first_sighting :: tweet where
  "first_sighting = \<lparr>tweet_id = Some ''1001'', tweet_created_at = Some ''2025-05-01T12:00:00Z'',
                      tweet_text = Some ''GG''\<rparr>"

definition later_sighting :: tweet where
  "later_sighting = \<lparr>tweet_id = Some ''1001'', tweet_created_at = Some ''2025-05-01T12:00:00Z'',
                      tweet_text = Some ''GG WP (edited)''\<rparr>"

definition api_answering :: "tweet list \<Rightarrow> twitter_api" where
  "api_answering tweets = \<lparr>user_by_username = (\<lambda>name. Inr ''42''),
                           user_tweets = (\<lambda>uid. Inr tweets)\<rparr>"

definition parse_any :: "string \<Rightarrow> error + timestamp" where
  "parse_any s = Inr (length s)"

definition empty_news :: news_state where
  "empty_news = \<lparr>team_news = [], player_news = [], news_log = []\<rparr>"

section \<open>Properties of the two progression policies\<close>

subsection \<open>The closed form\<close>

lemma level_search_step: "(k + 1) ^ 5 * 100 ^ 4 \<le> x ^ 4 \<Longrightarrow> level_search x k = level_search x (k + 1)"
  by (subst level_search.simps) simp

lemma level_search_stop: "\<not> (k + 1) ^ 5 * 100 ^ 4 \<le> x ^ 4 \<Longrightarrow> level_search x k = k"
  by (subst level_search.simps) simp

lemma level_search_bounds:
  "k ^ 5 * 100 ^ 4 \<le> x ^ 4 \<Longrightarrow>
   k \<le> level_search x k \<and> level_search x k ^ 5 * 100 ^ 4 \<le> x ^ 4 \<and>
   x ^ 4 < (level_search x k + 1) ^ 5 * 100 ^ 4"
proof (induction x k rule: level_search.induct)
  case (1 x k)
  show ?case
  proof (cases "(k + 1) ^ 5 * 100 ^ 4 \<le> x ^ 4")
    case True
    with "1.IH" have "k + 1 \<le> level_search x (k + 1) \<and>
        level_search x (k + 1) ^ 5 * 100 ^ 4 \<le> x ^ 4 \<and>
        x ^ 4 < (level_search x (k + 1) + 1) ^ 5 * 100 ^ 4"
      by simp
    then show ?thesis using True by (simp add: level_search_step)
  next
    case False
    then show ?thesis using "1.prems" by (simp add: level_search_stop)
  qed
qed

lemma pow08_floor_bounds:
  "0 \<le> pow08_floor x \<and> pow08_floor x ^ 5 * 100 ^ 4 \<le> x ^ 4 \<and>
   x ^ 4 < (pow08_floor x + 1) ^ 5 * 100 ^ 4"
  using level_search_bounds [of 0 x] by (simp add: pow08_floor_def)

lemma pow08_floor_unique:
  assumes "0 \<le> k" "k ^ 5 * 100 ^ 4 \<le> x ^ 4" "x ^ 4 < (k + 1) ^ 5 * 100 ^ 4"
  shows "pow08_floor x = k"
proof (rule ccontr)
  let ?p = "pow08_floor x"
  assume ne: "?p \<noteq> k"
  have b: "0 \<le> ?p" "?p ^ 5 * 100 ^ 4 \<le> x ^ 4" "x ^ 4 < (?p + 1) ^ 5 * 100 ^ 4"
    using pow08_floor_bounds [of x] by simp_all
  show False
  proof (cases "?p < k")
    case True
    then have "(?p + 1) ^ 5 \<le> k ^ 5" using b(1) by (intro power_mono) simp_all
    then have "(?p + 1) ^ 5 * 100 ^ 4 \<le> k ^ 5 * 100 ^ 4" by simp
    with b(3) assms(2) show False by simp
  next
    case False
    with ne have "k + 1 \<le> ?p" by simp
    then have "(k + 1) ^ 5 \<le> ?p ^ 5" using assms(1) by (intro power_mono) simp_all
    then have "(k + 1) ^ 5 * 100 ^ 4 \<le> ?p ^ 5 * 100 ^ 4" by simp
    with b(2) assms(3) show False by simp
  qed
qed


text \<open>
  The search computes the formula of the source: the floor of \<open>(x / 100)\<close> to the power
  \<open>4/5\<close>, in exact real arithmetic.
\<close>

lemma pow08_floor_real:
  assumes "0 \<le> x"
  shows "pow08_floor x = \<lfloor>(real_of_int x / 100) powr (4 / 5)\<rfloor>"
proof -
  let ?k = "pow08_floor x"
  let ?a = "real_of_int x / 100"
  let ?v = "?a powr (4 / 5)"
  have b: "0 \<le> ?k" "?k ^ 5 * 100 ^ 4 \<le> x ^ 4" "x ^ 4 < (?k + 1) ^ 5 * 100 ^ 4"
    using pow08_floor_bounds [of x] by simp_all
  have a0: "0 \<le> ?a" using assms by simp
  have v0: "0 \<le> ?v" by simp
  have v5: "?v ^ 5 = ?a ^ 4"
  proof (cases "?a = 0")
    case True
    then show ?thesis by simp
  next
    case False
    with a0 have pos: "0 < ?a" by simp
    have "?v ^ 5 = ?a powr (4 / 5 * 5)"
      using pos by (simp add: powr_power)
    also have "\<dots> = ?a powr (real (4::nat))" by simp
    also have "\<dots> = ?a ^ 4" using pos by (simp only: powr_realpow)
    finally show ?thesis .
  qed
  have lo: "real_of_int ?k ^ 5 \<le> ?a ^ 4"
  proof -
    have "real_of_int (?k ^ 5 * 100 ^ 4) \<le> real_of_int (x ^ 4)" using b(2) by (simp only: of_int_le_iff)
    then have "real_of_int ?k ^ 5 * 100 ^ 4 \<le> real_of_int x ^ 4" by simp
    then show ?thesis by (simp add: power_divide field_simps)
  qed
  have hi: "?a ^ 4 < (real_of_int ?k + 1) ^ 5"
  proof -
    have "real_of_int (x ^ 4) < real_of_int ((?k + 1) ^ 5 * 100 ^ 4)" using b(3) by (simp only: of_int_less_iff)
    then have "real_of_int x ^ 4 < (real_of_int ?k + 1) ^ 5 * 100 ^ 4" by simp
    then show ?thesis by (simp add: power_divide field_simps)
  qed
  have "real_of_int ?k \<le> ?v"
  proof (rule ccontr)
    assume "\<not> real_of_int ?k \<le> ?v"
    then have "?v < real_of_int ?k" by simp
    then have "?v ^ 5 < real_of_int ?k ^ 5" using v0 by (intro power_strict_mono) simp_all
    with lo v5 show False by simp
  qed
  moreover have "?v < real_of_int ?k + 1"
  proof (rule ccontr)
    assume "\<not> ?v < real_of_int ?k + 1"
    then have "real_of_int ?k + 1 \<le> ?v" by simp
    then have "(real_of_int ?k + 1) ^ 5 \<le> ?v ^ 5" using b(1) by (intro power_mono) simp_all
    with hi v5 show False by simp
  qed
  ultimately have "\<lfloor>?v\<rfloor> = ?k" by (intro floor_unique) simp_all
  then show ?thesis by simp
qed



lemma pow08_floor_1000: "pow08_floor 1000 = 6"
  by (simp add: pow08_floor_def level_search_step level_search_stop)

subsection \<open>The threshold loop\<close>

lemma times_1_5_ge: "0 < t \<Longrightarrow> t \<le> times_1_5 t"
  by (simp add: times_1_5_def)

lemma level_loop_stop: "n < t \<Longrightarrow> level_loop n l t = Some (n, l, t)"
  by (subst level_loop.simps) simp

lemma level_loop_step: "t \<le> n \<Longrightarrow> level_loop n l t = level_loop (n - t) (l + 1) (times_1_5 t)"
  by (subst level_loop.simps) simp

text \<open>
  With a positive threshold the loop ends: each round takes at least 1 from \<open>new_xp\<close>,
  and the threshold never shrinks. The level never goes down, the experience left is
  below the last threshold, and a first threshold that is reached is paid in full.
\<close>

lemma level_loop_terminates:
  "0 < t \<Longrightarrow>
   \<exists>n' l' t'. level_loop n l t = Some (n', l', t') \<and> l \<le> l' \<and> n' \<le> n \<and> n' < t' \<and> t \<le> t'
      \<and> (t \<le> n \<longrightarrow> n' \<le> n - t \<and> l < l')"
proof (induction "nat n" arbitrary: n l t rule: less_induct)
  case less
  show ?case
  proof (cases "t \<le> n")
    case False
    then show ?thesis by (simp add: level_loop_stop)
  next
    case True
    with less.prems have "nat (n - t) < nat n" by simp
    moreover have "0 < times_1_5 t" using less.prems times_1_5_ge [of t] by simp
    ultimately obtain n' l' t' where
      r: "level_loop (n - t) (l + 1) (times_1_5 t) = Some (n', l', t')"
         "l + 1 \<le> l'" "n' \<le> n - t" "n' < t'" "times_1_5 t \<le> t'"
      using less.hyps [of "n - t" "times_1_5 t" "l + 1"] by blast
    have "t \<le> t'" using r(5) times_1_5_ge [OF less.prems] by simp
    with r True less.prems show ?thesis by (simp add: level_loop_step)
  qed
qed

text \<open>
  With the threshold 0 and no debt the loop never ends; this is why \<open>level_loop\<close> is
  partial.
\<close>

lemma level_loop_diverges:
  assumes "level_loop n l t = Some r"
  shows "t = 0 \<longrightarrow> n < 0"
  by (rule level_loop.raw_induct [where P = "\<lambda>n l t r. t = 0 \<longrightarrow> n < 0", OF _ assms])
     (fastforce simp: times_1_5_def split: if_splits)

lemma level_loop_zero_threshold: "level_loop 0 1 0 = None"
  using level_loop_diverges [of 0 1 0] by (cases "level_loop 0 1 0") auto

lemma level_loop_1000: "level_loop 1000 1 100 = Some (188, 5, 505)"
  by (simp add: level_loop_step level_loop_stop times_1_5_def)

subsection \<open>What one call does\<close>



lemma add_xp_ok:
  assumes "get_user coll tid = Some u" "0 \<le> xp u + amount"
  shows "add_xp coll tid amount t1 t2 =
     (coll(tid \<mapsto> u\<lparr>xp := xp u + amount, level := 1 + pow08_floor (xp u + amount),
                     last_active := t1, updated_at := t2,
                     engagement := (engagement u)\<lparr>bot_interactions :=
                        bot_interactions (engagement u) + 1\<rparr>\<rparr>),
      Inr \<lparr>current_xp = xp u + amount, new_level = 1 + pow08_floor (xp u + amount),
           level_up = (level u < 1 + pow08_floor (xp u + amount)),
           previous_level = (if level u < 1 + pow08_floor (xp u + amount)
                             then Some (level u) else None)\<rparr>)"
  using assms
  by (simp add: add_xp_def closed_form_level_def get_user_def update_user_def
      inc_bot_interactions_def Let_def)

lemma update_user_xp_ok:
  assumes "get_user_profile pc uid = Some p"
    and "level_loop (profile_xp p + g) (profile_level p) (xp_to_next_level p) = Some (n', l', t')"
  shows "update_user_xp pc uid g now =
     Some (pc(uid \<mapsto> p\<lparr>profile_xp := n', profile_level := l', xp_to_next_level := t',
                         last_interaction := now\<rparr>),
           Some (p\<lparr>profile_xp := n', profile_level := l', xp_to_next_level := t',
                   last_interaction := now\<rparr>))"
  using assms by (simp add: update_user_xp_def get_user_profile_def Let_def)

lemma example_users_get: "get_user example_users 7 = Some (new_user 7 ''fan'' 0)"
  by (simp add: example_users_def get_user_def create_user_def)


lemma fresh_profiles_get: "get_user_profile fresh_profiles 7 = Some (new_profile 7 ''fan'' 0 0)"
  by (simp add: fresh_profiles_def create_profile_def get_user_profile_def)











text \<open>
  \<^bold>\<open>C1.\<close> The two policies are not numerically equivalent. A fresh level-1 user is
  granted 1000 experience points in one call: \<^verbatim>\<open>UserModel.add_xp\<close> (closed form,
  \<open>1 + \<lfloor>(1000 / 100) ^ 0.8\<rfloor>\<close>) stores level 7, \<^verbatim>\<open>UserService.update_user_xp\<close>
  (thresholds 100, 150, 225, 337, 505) stores level 5.
\<close>

theorem policies_not_equivalent:
  "\<exists>amount c1 r c2 p. 0 \<le> amount
     \<and> add_xp (create_user Map.empty tid name t0) tid amount t1 t2 = (c1, Inr r)
     \<and> update_user_xp (create_profile Map.empty uid name t0 t0') uid amount t3 = Some (c2, Some p)
     \<and> new_level r = 1 + \<lfloor>(real_of_int amount / 100) powr (4 / 5)\<rfloor>
     \<and> new_level r = 7 \<and> profile_level p = 5 \<and> new_level r \<noteq> profile_level p"
proof -
  let ?u = "new_user tid name t0" and ?p = "new_profile uid name t0 t0'"
  have u: "get_user (create_user Map.empty tid name t0) tid = Some ?u"
    by (simp add: get_user_def create_user_def)
  have "0 \<le> xp ?u + 1000" by (simp add: new_user_def)
  note a = add_xp_ok [OF u this, of t1 t2]
  have p: "get_user_profile (create_profile Map.empty uid name t0 t0') uid = Some ?p"
    by (simp add: get_user_profile_def create_profile_def)
  have "level_loop (profile_xp ?p + 1000) (profile_level ?p) (xp_to_next_level ?p)
          = Some (188, 5, 505)"
    by (simp add: new_profile_def level_loop_1000)
  note b = update_user_xp_ok [OF p this, of t3]
  have x: "xp ?u + 1000 = 1000" by (simp add: new_user_def)
  have fl: "\<lfloor>(real_of_int 1000 / 100) powr (4 / 5)\<rfloor> = 6"
    using pow08_floor_real [of 1000] by (simp add: pow08_floor_1000)
  show ?thesis
    apply (rule exI [of _ 1000])
    apply (subst a, subst b)
    apply (simp only: x pow08_floor_1000)
    using fl apply simp
    done
qed






text \<open>
  \<^bold>\<open>C4\<close>, as amended. A call of \<^verbatim>\<open>UserModel.add_xp\<close> that returns (the user exists and
  the new experience is not negative) adds exactly 1 to \<^verbatim>\<open>bot_interactions\<close> and
  leaves the other three engagement counters alone. A call of
  \<^verbatim>\<open>UserService.update_user_xp\<close> leaves every engagement counter alone,
  \<^verbatim>\<open>bot_interactions\<close> included: in that service counters move only through
  \<^verbatim>\<open>update_engagement_metric\<close>.
\<close>

theorem interaction_counter_amended:
  "(get_user coll tid = Some u \<and> 0 \<le> xp u + amount \<longrightarrow>
      (\<exists>coll' r u'. add_xp coll tid amount t1 t2 = (coll', Inr r)
         \<and> get_user coll' tid = Some u'
         \<and> bot_interactions (engagement u') = bot_interactions (engagement u) + 1
         \<and> mission_completions (engagement u') = mission_completions (engagement u)
         \<and> survey_completions (engagement u') = survey_completions (engagement u)
         \<and> social_shares (engagement u') = social_shares (engagement u)))
   \<and> (get_user_profile pc uid = Some p \<and> 0 < xp_to_next_level p \<longrightarrow>
      (\<exists>pc' p'. update_user_xp pc uid amount t3 = Some (pc', Some p')
         \<and> get_user_profile pc' uid = Some p'
         \<and> profile_engagement p' = profile_engagement p))"
proof (intro conjI impI)
  assume h: "get_user coll tid = Some u \<and> 0 \<le> xp u + amount"
  then have u: "get_user coll tid = Some u" and ok: "0 \<le> xp u + amount" by simp_all
  show "\<exists>coll' r u'. add_xp coll tid amount t1 t2 = (coll', Inr r)
         \<and> get_user coll' tid = Some u'
         \<and> bot_interactions (engagement u') = bot_interactions (engagement u) + 1
         \<and> mission_completions (engagement u') = mission_completions (engagement u)
         \<and> survey_completions (engagement u') = survey_completions (engagement u)
         \<and> social_shares (engagement u') = social_shares (engagement u)"
    by (simp add: add_xp_ok [OF u ok] get_user_def)
next
  assume h: "get_user_profile pc uid = Some p \<and> 0 < xp_to_next_level p"
  then have p: "get_user_profile pc uid = Some p" and t0: "0 < xp_to_next_level p" by simp_all
  from level_loop_terminates [OF t0, of "profile_xp p + amount" "profile_level p"]
  obtain n' l' t' where
    r: "level_loop (profile_xp p + amount) (profile_level p) (xp_to_next_level p) = Some (n', l', t')"
    by blast
  show "\<exists>pc' p'. update_user_xp pc uid amount t3 = Some (pc', Some p')
         \<and> get_user_profile pc' uid = Some p'
         \<and> profile_engagement p' = profile_engagement p"
    by (simp add: update_user_xp_ok [OF p r] get_user_profile_def)
qed

theorem interaction_counter_amended_witness:
  "get_user example_users 7 = Some (new_user 7 ''fan'' 0)
   \<and> 0 \<le> xp (new_user 7 ''fan'' 0) + 20
   \<and> (\<exists>coll' r u'. add_xp example_users 7 20 1 2 = (coll', Inr r)
         \<and> get_user coll' 7 = Some u'
         \<and> bot_interactions (engagement u') = bot_interactions (engagement (new_user 7 ''fan'' 0)) + 1
         \<and> mission_completions (engagement u') = mission_completions (engagement (new_user 7 ''fan'' 0))
         \<and> survey_completions (engagement u') = survey_completions (engagement (new_user 7 ''fan'' 0))
         \<and> social_shares (engagement u') = social_shares (engagement (new_user 7 ''fan'' 0)))
   \<and> get_user_profile fresh_profiles 7 = Some (new_profile 7 ''fan'' 0 0)
   \<and> 0 < xp_to_next_level (new_profile 7 ''fan'' 0 0)
   \<and> (\<exists>pc' p'. update_user_xp fresh_profiles 7 20 3 = Some (pc', Some p')
         \<and> get_user_profile pc' 7 = Some p'
         \<and> profile_engagement p' = profile_engagement (new_profile 7 ''fan'' 0 0))"
proof -
  have h1: "get_user example_users 7 = Some (new_user 7 ''fan'' 0)
     \<and> 0 \<le> xp (new_user 7 ''fan'' 0) + 20"
    by (simp add: example_users_get new_user_def)
  have h2: "get_user_profile fresh_profiles 7 = Some (new_profile 7 ''fan'' 0 0)
     \<and> 0 < xp_to_next_level (new_profile 7 ''fan'' 0 0)"
    by (simp add: fresh_profiles_get new_profile_def)
  from interaction_counter_amended
    [of example_users 7 "new_user 7 ''fan'' 0" 20 1 2 fresh_profiles 7 "new_profile 7 ''fan'' 0 0" 3]
    h1 h2
  show ?thesis by blast
qed

text \<open>
  \<^bold>\<open>C4\<close> as stated fails on \<^verbatim>\<open>UserService.update_user_xp\<close>: a fresh profile is granted
  50 experience points and its \<^verbatim>\<open>bot_interactions\<close> is 0 before and after.
\<close>

theorem interaction_counter_counterexample:
  "get_user_profile fresh_profiles 7 = Some (new_profile 7 ''fan'' 0 0)
   \<and> bot_interactions (profile_engagement (new_profile 7 ''fan'' 0 0)) = 0
   \<and> map_option snd (update_user_xp fresh_profiles 7 50 1)
       = Some (Some ((new_profile 7 ''fan'' 0 0)\<lparr>profile_xp := 50, last_interaction := 1\<rparr>))
   \<and> bot_interactions (profile_engagement
        ((new_profile 7 ''fan'' 0 0)\<lparr>profile_xp := 50, last_interaction := 1\<rparr>)) = 0"
proof -
  have "level_loop (profile_xp (new_profile 7 ''fan'' 0 0) + 50)
          (profile_level (new_profile 7 ''fan'' 0 0))
          (xp_to_next_level (new_profile 7 ''fan'' 0 0)) = Some (50, 1, 100)"
    by (simp add: new_profile_def level_loop_stop)
  from update_user_xp_ok [OF fresh_profiles_get this, of 1]
  show ?thesis by (simp add: fresh_profiles_get) (simp add: new_profile_def)
qed



section \<open>Properties of the survey aggregation\<close>

subsection \<open>Reading answers\<close>

lemma str_nat_digit: "n < 10 \<Longrightarrow> str_nat n = [''0123456789'' ! n]"
  by (subst str_nat.simps) simp

lemma str_nat_0: "str_nat 0 = ''0''"
  by (simp add: str_nat_digit)

lemma str_nat_12: "str_nat 12 = ''12''"
  by (subst str_nat.simps) (simp add: str_nat_digit)

lemma get_answer_answering: "get_answer (answering a) 0 = a"
  by (simp add: get_answer_def answering_def str_nat_0)


lemma int_of_string_signed: "int_of_string '' +4_2  '' = Some 42"
  by (simp add: int_of_string_def strip_def is_space_def is_digit_def digit_value_def)

lemma int_of_string_negative: "int_of_string ''-007'' = Some (-7)"
  by (simp add: int_of_string_def strip_def is_space_def is_digit_def digit_value_def)

lemma int_of_string_double_underscore: "int_of_string ''4__2'' = None"
  by (simp add: int_of_string_def strip_def is_space_def is_digit_def digit_value_def)

lemma int_of_string_decimal_point: "int_of_string ''5.0'' = None"
  by (simp add: int_of_string_def strip_def is_space_def is_digit_def digit_value_def)

subsection \<open>Counting choices\<close>

lemma map_of_fold_zero:
  "map_of (fold (\<lambda>opt d. AList.update opt 0 d) opts d0) k
     = (if k \<in> set opts then Some (0::nat) else map_of d0 k)"
  by (induction opts arbitrary: d0) (simp_all add: update_conv')

lemma map_of_zero_counts:
  "map_of (zero_counts opts) k = (if k \<in> set opts then Some 0 else None)"
  by (simp add: zero_counts_def map_of_fold_zero)

lemma map_of_count_selected:
  "map_of (count_selected v d) k
     = map_option (\<lambda>c. c + (if v = SStr k then 1 else 0)) (map_of d k)"
proof (cases v)
  case (SStr s)
  then show ?thesis
    by (cases "map_of d s"; cases "map_of d k") (auto simp: update_conv')
qed (simp_all add: option.map_ident)

lemma map_of_fold_count_selected:
  "map_of (fold count_selected xs d) k
     = map_option (\<lambda>c. c + count_list xs (SStr k)) (map_of d k)"
proof (induction xs arbitrary: d)
  case Nil
  then show ?case by (simp add: option.map_ident)
next
  case (Cons x xs)
  show ?case
    by (cases "map_of d k") (simp_all add: Cons.IH map_of_count_selected)
qed

lemma map_of_count_answer:
  "map_of (count_answer a d) k
     = map_option (\<lambda>c. c + count_list (selections a) (SStr k)) (map_of d k)"
  by (cases a) (simp_all add: selections_def map_of_fold_count_selected map_of_count_selected)

lemma map_of_fold_count_answer:
  "map_of (fold (\<lambda>r d. count_answer (get_answer r i) d) rs d) k
     = map_option (\<lambda>c. c + (\<Sum>r\<leftarrow>rs. count_list (selections (get_answer r i)) (SStr k)))
         (map_of d k)"
proof (induction rs arbitrary: d)
  case Nil
  then show ?case by (simp add: option.map_ident)
next
  case (Cons r rs)
  show ?case
    by (cases "map_of d k") (simp_all add: Cons.IH map_of_count_answer)
qed

text \<open>
  The count of a declared option after the loop over the responses is the number of
  times the option occurs among the members of the answers; a key that is not declared
  never enters the dictionary.
\<close>

lemma map_of_choice_counts:
  "map_of (choice_counts i opts rs) k
     = (if k \<in> set opts
        then Some (\<Sum>r\<leftarrow>rs. count_list (selections (get_answer r i)) (SStr k))
        else None)"
  by (simp add: choice_counts_def map_of_fold_count_answer map_of_zero_counts)

lemma choice_example_counts:
  "choice_counts 0 [''A'', ''B'', ''C''] choice_example = [(''A'', 2), (''B'', 2), (''C'', 1)]"
  by (simp add: choice_counts_def choice_example_def zero_counts_def get_answer_answering)

subsection \<open>Scale statistics\<close>









subsection \<open>The result of one question, by type\<close>

lemma aggregate_nth:
  "i < length (questions s) \<Longrightarrow>
   question_list (aggregate s rs) ! i = question_result i (questions s ! i) rs"
  by (simp add: aggregate_def nth_enumerate_eq)

lemma aggregate_length: "length (question_list (aggregate s rs)) = length (questions s)"
  by (simp add: aggregate_def)

lemma question_result_choice:
  "q_type q \<in> set [''multiple_choice'', ''single_choice''] \<Longrightarrow>
   question_result i q rs =
     \<lparr>qr_question = q_text q, qr_type = q_type q,
      option_counts = Some (choice_counts i (declared_options q) rs),
      text_answers = None, average = None, minimum = None, maximum = None,
      distribution = None\<rparr>"
  by (simp add: question_result_def)

lemma question_result_text:
  "q_type q = ''text'' \<Longrightarrow>
   question_result i q rs =
     \<lparr>qr_question = q_text q, qr_type = q_type q, option_counts = None,
      text_answers = Some (collect_text i rs), average = None, minimum = None,
      maximum = None, distribution = None\<rparr>"
  by (simp add: question_result_def)

lemma question_result_scale:
  "q_type q = ''scale'' \<Longrightarrow>
   question_result i q rs =
     (if scale_answers i rs = []
      then \<lparr>qr_question = q_text q, qr_type = q_type q, option_counts = None,
            text_answers = None, average = None, minimum = None, maximum = None,
            distribution = None\<rparr>
      else \<lparr>qr_question = q_text q, qr_type = q_type q, option_counts = None,
            text_answers = None, average = Some (mean (scale_answers i rs)),
            minimum = Some (py_min (scale_answers i rs)),
            maximum = Some (py_max (scale_answers i rs)),
            distribution = Some (histogram (scale_answers i rs))\<rparr>)"
  by (simp add: question_result_def Let_def)

lemma question_result_other:
  "q_type q \<notin> set [''multiple_choice'', ''single_choice'', ''text'', ''scale''] \<Longrightarrow>
   question_result i q rs =
     \<lparr>qr_question = q_text q, qr_type = q_type q, option_counts = None,
      text_answers = None, average = None, minimum = None, maximum = None,
      distribution = None\<rparr>"
  by (simp add: question_result_def)

lemma valid_example_id: "valid_object_id example_id"
  by (simp add: valid_object_id_def example_id_def is_hex_def)

text \<open>
  \<^bold>\<open>C7.\<close> For a choice question (\<^verbatim>\<open>multiple_choice\<close> or \<^verbatim>\<open>single_choice\<close>) the
  aggregation yields one count per declared option and no other key; the count of an
  option is the number of its occurrences among the members of the answers to that
  question (the members of a list answer, or the answer itself), so every occurrence of
  a declared option adds exactly 1 and every other value adds nothing and raises
  nothing. For the options \<open>A, B, C\<close> and the answers \<open>[A, B]\<close>, \<open>[B]\<close>, \<open>[C, A]\<close> the
  counts are \<open>A: 2, B: 2, C: 1\<close>.
\<close>

theorem choice_tally:
  "(i < length (questions s)
      \<and> q_type (questions s ! i) \<in> set [''multiple_choice'', ''single_choice''] \<longrightarrow>
    (\<exists>d. option_counts (question_list (aggregate s rs) ! i) = Some d
       \<and> (\<forall>k. map_of d k =
             (if k \<in> set (declared_options (questions s ! i))
              then Some (\<Sum>r\<leftarrow>rs. count_list (selections (get_answer r i)) (SStr k))
              else None))))
   \<and> map (\<lambda>res. option_counts res)
        (question_list (aggregate \<lparr>title = t, questions = [choice_question]\<rparr> choice_example))
      = [Some [(''A'', 2), (''B'', 2), (''C'', 1)]]"
proof (intro conjI impI)
  assume "i < length (questions s)
      \<and> q_type (questions s ! i) \<in> set [''multiple_choice'', ''single_choice'']"
  then show "\<exists>d. option_counts (question_list (aggregate s rs) ! i) = Some d
       \<and> (\<forall>k. map_of d k =
             (if k \<in> set (declared_options (questions s ! i))
              then Some (\<Sum>r\<leftarrow>rs. count_list (selections (get_answer r i)) (SStr k))
              else None))"
    by (simp only: aggregate_nth question_result_choice) (simp add: map_of_choice_counts)
next
  have "q_type choice_question \<in> set [''multiple_choice'', ''single_choice'']"
    by (simp add: choice_question_def)
  from question_result_choice [OF this, of 0 choice_example]
  show "map (\<lambda>res. option_counts res)
        (question_list (aggregate \<lparr>title = t, questions = [choice_question]\<rparr> choice_example))
      = [Some [(''A'', 2), (''B'', 2), (''C'', 1)]]"
    by (simp add: aggregate_def enumerate_simps)
       (simp add: choice_question_def declared_options_def choice_example_counts)
qed

theorem choice_tally_witness:
  "0 < length (questions example_survey)
   \<and> q_type (questions example_survey ! 0) \<in> set [''multiple_choice'', ''single_choice'']
   \<and> (\<exists>d. option_counts (question_list (aggregate example_survey choice_example) ! 0) = Some d
       \<and> (\<forall>k. map_of d k =
             (if k \<in> set (declared_options (questions example_survey ! 0))
              then Some (\<Sum>r\<leftarrow>choice_example. count_list (selections (get_answer r 0)) (SStr k))
              else None)))
   \<and> option_counts (question_list (aggregate example_survey choice_example) ! 0)
       = Some [(''A'', 2), (''B'', 2), (''C'', 1)]"
proof -
  have h: "0 < length (questions example_survey)
     \<and> q_type (questions example_survey ! 0) \<in> set [''multiple_choice'', ''single_choice'']"
    by (simp add: example_survey_def choice_question_def)
  have e: "option_counts (question_list (aggregate example_survey choice_example) ! 0)
       = Some [(''A'', 2), (''B'', 2), (''C'', 1)]"
    using h
    by (simp only: aggregate_nth question_result_choice)
       (simp add: example_survey_def choice_question_def declared_options_def
          choice_example_counts)
  from choice_tally [of 0 example_survey choice_example "''Feedback''"] h e
  show ?thesis by blast
qed



text \<open>
  \<^bold>\<open>C9.\<close> For every survey that exists and has no response,
  \<^verbatim>\<open>get_survey_results\<close> returns a result and raises nothing: 0 responses and one
  entry per question, in order, whatever the type of the question. The entry of a
  choice question counts 0 for every declared option and has no other key; the entry of
  a text question has the empty list of answers; no entry has an average, a minimum, a
  maximum or a histogram.
\<close>

theorem empty_aggregation:
  assumes "valid_object_id sid" "surveys db sid = Some s"
    and "filter (\<lambda>r. survey_id r = sid) (survey_responses db) = []"
  shows "\<exists>qs. get_survey_results db sid
            = Inr (Some \<lparr>survey_title = title s, total_responses = 0, question_list = qs\<rparr>)
     \<and> length qs = length (questions s)
     \<and> (\<forall>i<length qs.
          qr_question (qs ! i) = q_text (questions s ! i)
          \<and> qr_type (qs ! i) = q_type (questions s ! i)
          \<and> average (qs ! i) = None \<and> minimum (qs ! i) = None \<and> maximum (qs ! i) = None
          \<and> distribution (qs ! i) = None
          \<and> text_answers (qs ! i) = (if q_type (questions s ! i) = ''text'' then Some [] else None)
          \<and> (if q_type (questions s ! i) \<in> set [''multiple_choice'', ''single_choice'']
             then \<exists>d. option_counts (qs ! i) = Some d
                    \<and> (\<forall>k. map_of d k
                          = (if k \<in> set (declared_options (questions s ! i)) then Some 0 else None))
             else option_counts (qs ! i) = None))"
proof -
  let ?qs = "question_list (aggregate s [])"
  have run: "get_survey_results db sid
      = Inr (Some \<lparr>survey_title = title s, total_responses = 0, question_list = ?qs\<rparr>)"
    using assms by (simp add: get_survey_results_def aggregate_def)
  have each: "qr_question (question_result i q []) = q_text q
          \<and> qr_type (question_result i q []) = q_type q
          \<and> average (question_result i q []) = None \<and> minimum (question_result i q []) = None
          \<and> maximum (question_result i q []) = None
          \<and> distribution (question_result i q []) = None
          \<and> text_answers (question_result i q []) = (if q_type q = ''text'' then Some [] else None)
          \<and> (if q_type q \<in> set [''multiple_choice'', ''single_choice'']
             then \<exists>d. option_counts (question_result i q []) = Some d
                    \<and> (\<forall>k. map_of d k = (if k \<in> set (declared_options q) then Some 0 else None))
             else option_counts (question_result i q []) = None)" for i q
  proof -
    have sc: "scale_answers i [] = []" by (simp add: scale_answers_def List.map_filter_simps)
    consider (choice) "q_type q \<in> set [''multiple_choice'', ''single_choice'']"
      | (free_text) "q_type q = ''text''" | (scale) "q_type q = ''scale''"
      | (other) "q_type q \<notin> set [''multiple_choice'', ''single_choice'', ''text'', ''scale'']"
      by auto
    then show ?thesis
    proof cases
      case choice
      then have "q_type q \<noteq> ''text''" by auto
      with choice show ?thesis
        by (simp add: question_result_choice choice_counts_def map_of_zero_counts)
    next
      case free_text
      then show ?thesis by (simp add: question_result_text collect_text_def)
    next
      case scale
      then show ?thesis by (simp add: question_result_scale sc)
    next
      case other
      then show ?thesis by (simp add: question_result_other)
    qed
  qed
  have "\<forall>i<length ?qs.
          qr_question (?qs ! i) = q_text (questions s ! i)
          \<and> qr_type (?qs ! i) = q_type (questions s ! i)
          \<and> average (?qs ! i) = None \<and> minimum (?qs ! i) = None \<and> maximum (?qs ! i) = None
          \<and> distribution (?qs ! i) = None
          \<and> text_answers (?qs ! i) = (if q_type (questions s ! i) = ''text'' then Some [] else None)
          \<and> (if q_type (questions s ! i) \<in> set [''multiple_choice'', ''single_choice'']
             then \<exists>d. option_counts (?qs ! i) = Some d
                    \<and> (\<forall>k. map_of d k
                          = (if k \<in> set (declared_options (questions s ! i)) then Some 0 else None))
             else option_counts (?qs ! i) = None)"
  proof (intro allI impI)
    fix i assume "i < length ?qs"
    then have i: "i < length (questions s)" by (simp add: aggregate_length)
    show "qr_question (?qs ! i) = q_text (questions s ! i)
          \<and> qr_type (?qs ! i) = q_type (questions s ! i)
          \<and> average (?qs ! i) = None \<and> minimum (?qs ! i) = None \<and> maximum (?qs ! i) = None
          \<and> distribution (?qs ! i) = None
          \<and> text_answers (?qs ! i) = (if q_type (questions s ! i) = ''text'' then Some [] else None)
          \<and> (if q_type (questions s ! i) \<in> set [''multiple_choice'', ''single_choice'']
             then \<exists>d. option_counts (?qs ! i) = Some d
                    \<and> (\<forall>k. map_of d k
                          = (if k \<in> set (declared_options (questions s ! i)) then Some 0 else None))
             else option_counts (?qs ! i) = None)"
      unfolding aggregate_nth [OF i] by (rule each)
  qed
  with run aggregate_length [of s "[]"] show ?thesis by blast
qed

theorem empty_aggregation_witness:
  "valid_object_id example_id \<and> surveys example_db example_id = Some example_survey
   \<and> filter (\<lambda>r. survey_id r = example_id) (survey_responses example_db) = []
   \<and> get_survey_results example_db example_id
      = Inr (Some \<lparr>survey_title = ''Feedback'', total_responses = 0,
           question_list =
             [\<lparr>qr_question = ''Which?'', qr_type = ''multiple_choice'',
               option_counts = Some [(''A'', 0), (''B'', 0), (''C'', 0)], text_answers = None,
               average = None, minimum = None, maximum = None, distribution = None\<rparr>,
              \<lparr>qr_question = ''How much?'', qr_type = ''scale'',
               option_counts = None, text_answers = None,
               average = None, minimum = None, maximum = None, distribution = None\<rparr>,
              \<lparr>qr_question = ''Why?'', qr_type = ''text'',
               option_counts = None, text_answers = Some [],
               average = None, minimum = None, maximum = None, distribution = None\<rparr>]\<rparr>)"
proof -
  have h: "surveys example_db example_id = Some example_survey"
    "filter (\<lambda>r. survey_id r = example_id) (survey_responses example_db) = []"
    by (simp_all add: example_db_def)
  from empty_aggregation [OF valid_example_id h]
  obtain qs where "get_survey_results example_db example_id
            = Inr (Some \<lparr>survey_title = title example_survey, total_responses = 0,
                         question_list = qs\<rparr>)"
    by blast
  moreover have "get_survey_results example_db example_id
      = Inr (Some \<lparr>survey_title = ''Feedback'', total_responses = 0,
           question_list =
             [\<lparr>qr_question = ''Which?'', qr_type = ''multiple_choice'',
               option_counts = Some [(''A'', 0), (''B'', 0), (''C'', 0)], text_answers = None,
               average = None, minimum = None, maximum = None, distribution = None\<rparr>,
              \<lparr>qr_question = ''How much?'', qr_type = ''scale'',
               option_counts = None, text_answers = None,
               average = None, minimum = None, maximum = None, distribution = None\<rparr>,
              \<lparr>qr_question = ''Why?'', qr_type = ''text'',
               option_counts = None, text_answers = Some [],
               average = None, minimum = None, maximum = None, distribution = None\<rparr>]\<rparr>)"
    using valid_example_id
    by (simp add: get_survey_results_def example_db_def aggregate_def enumerate_simps
        example_survey_def question_result_def choice_question_def scale_question_def
        text_question_def declared_options_def choice_counts_def zero_counts_def
        scale_answers_def collect_text_def List.map_filter_simps)
  ultimately show ?thesis using valid_example_id h by blast
qed

section \<open>Properties of the ingestion\<close>

subsection \<open>Insert-if-absent\<close>

lemma team_filter_key:
  "(\<lambda>d. source d = s \<and> post_id d = tid) = (\<lambda>d. team_key d = (s, tid))"
  by (auto simp: team_key_def)

lemma player_filter_key:
  "(\<lambda>d. player_id d = p \<and> post_id d = tid) = (\<lambda>d. player_key d = (p, tid))"
  by (auto simp: player_key_def)

lemma upsert_by_key:
  "update_one_set_on_insert (\<lambda>d. f d = k) doc coll
     = (if k \<in> f ` set coll then coll else coll @ [doc])"
  by (auto simp: update_one_set_on_insert_def list_ex_iff)

lemma stored_once:
  "distinct (map f coll) \<Longrightarrow> k \<in> f ` set coll \<Longrightarrow> length (filter (\<lambda>d. f d = k) coll) = 1"
proof (induction coll)
  case Nil
  then show ?case by simp
next
  case (Cons d coll)
  show ?case
  proof (cases "f d = k")
    case True
    with Cons.prems have "k \<notin> f ` set coll" by simp
    then have "filter (\<lambda>d. f d = k) coll = []"
      by (force simp: filter_empty_conv)
    with True show ?thesis by simp
  next
    case False
    with Cons show ?thesis by auto
  qed
qed

subsection \<open>The storing loops\<close>

lemma storable_cases:
  assumes "storable parse t"
  obtains tid created time where "tweet_id t = Some tid" "tweet_created_at t = Some created"
    "parse (replace_Z created) = Inr time"
  using assms by (auto simp: storable_def split: option.splits sum.splits)

text \<open>
  On items that can all be stored a loop raises nothing, only appends to the collection,
  leaves under each id of the response a document with its key, and keeps the keys
  distinct if they were. When every id of the response has its key in the collection
  already, the loop writes nothing.
\<close>

lemma store_team_tweets_storable:
  assumes "list_all (storable parse) tweets"
  shows "\<exists>new. store_team_tweets parse tweets coll = (coll @ new, None)
     \<and> team_key ` set (coll @ new)
         = team_key ` set coll \<union> {(''twitter'', tid) | tid. Some tid \<in> tweet_id ` set tweets}
     \<and> (distinct (map team_key coll) \<longrightarrow> distinct (map team_key (coll @ new)))"
  using assms
proof (induction tweets arbitrary: coll)
  case Nil
  then show ?case by simp
next
  case (Cons t ts)
  then have st: "storable parse t" and rest: "list_all (storable parse) ts" by simp_all
  from st obtain tid created time where
    t: "tweet_id t = Some tid" "tweet_created_at t = Some created"
       "parse (replace_Z created) = Inr time"
    by (rule storable_cases)
  define doc where "doc = \<lparr>player_id = None, source = ''twitter'', post_id = tid,
      posted_at = time, body = (case tweet_text t of None \<Rightarrow> [] | Some s \<Rightarrow> s), media = [],
      url = ''https://twitter.com/'' @ team_twitter_username @ ''/status/'' @ tid\<rparr>"
  define coll1 where
    "coll1 = update_one_set_on_insert (\<lambda>d. team_key d = (''twitter'', tid)) doc coll"
  define seen where "seen = {(''twitter'', tid) | tid. Some tid \<in> tweet_id ` set ts}"
  have step: "store_team_tweets parse (t # ts) coll = store_team_tweets parse ts coll1"
    using t by (simp add: team_filter_key coll1_def doc_def)
  have key: "team_key doc = (''twitter'', tid)" by (simp add: team_key_def doc_def)
  have "\<exists>mid. coll1 = coll @ mid
      \<and> team_key ` set coll1 = insert (''twitter'', tid) (team_key ` set coll)
      \<and> (distinct (map team_key coll) \<longrightarrow> distinct (map team_key coll1))"
  proof (cases "(''twitter'', tid) \<in> team_key ` set coll")
    case True
    then have "coll1 = coll" by (simp add: upsert_by_key coll1_def)
    with True show ?thesis by auto
  next
    case False
    then have "coll1 = coll @ [doc]" by (simp add: upsert_by_key coll1_def)
    with False key show ?thesis by simp
  qed
  then obtain mid where mid: "coll1 = coll @ mid"
    and mid_keys: "team_key ` set coll1 = insert (''twitter'', tid) (team_key ` set coll)"
    and mid_dist: "distinct (map team_key coll) \<longrightarrow> distinct (map team_key coll1)"
    by (elim exE conjE)
  from Cons.IH [OF rest, of coll1] obtain new where
    new: "store_team_tweets parse ts coll1 = (coll1 @ new, None)"
    and new_keys: "team_key ` set (coll1 @ new) = team_key ` set coll1 \<union> seen"
    and new_dist: "distinct (map team_key coll1) \<longrightarrow> distinct (map team_key (coll1 @ new))"
    unfolding seen_def by (elim exE conjE)
  have all: "{(''twitter'', tid) | tid. Some tid \<in> tweet_id ` set (t # ts)}
      = insert (''twitter'', tid) seen"
    using t(1) unfolding seen_def by auto
  have "store_team_tweets parse (t # ts) coll = (coll @ (mid @ new), None)"
    using step new mid by simp
  moreover have "team_key ` set (coll @ (mid @ new))
      = team_key ` set coll \<union> {(''twitter'', tid) | tid. Some tid \<in> tweet_id ` set (t # ts)}"
  proof -
    have "team_key ` set (coll @ (mid @ new)) = team_key ` set (coll1 @ new)"
      using mid by simp
    also have "\<dots> = insert (''twitter'', tid) (team_key ` set coll) \<union> seen"
      using new_keys mid_keys by simp
    finally show ?thesis unfolding all by simp
  qed
  moreover have "distinct (map team_key coll) \<longrightarrow> distinct (map team_key (coll @ (mid @ new)))"
    using mid mid_dist new_dist by simp
  ultimately show ?case by (intro exI [of _ "mid @ new"] conjI)
qed

lemma store_team_tweets_seen:
  assumes "list_all (storable parse) tweets"
    and "\<forall>tid. Some tid \<in> tweet_id ` set tweets \<longrightarrow> (''twitter'', tid) \<in> team_key ` set coll"
  shows "store_team_tweets parse tweets coll = (coll, None)"
  using assms
proof (induction tweets)
  case Nil
  then show ?case by simp
next
  case (Cons t ts)
  then have st: "storable parse t" and rest: "list_all (storable parse) ts" by simp_all
  from st obtain tid created time where
    t: "tweet_id t = Some tid" "tweet_created_at t = Some created"
       "parse (replace_Z created) = Inr time"
    by (rule storable_cases)
  have seen: "(''twitter'', tid) \<in> team_key ` set coll"
    using Cons.prems(2) t(1) by (metis image_eqI list.set_intros(1))
  have "\<forall>tid. Some tid \<in> tweet_id ` set ts \<longrightarrow> (''twitter'', tid) \<in> team_key ` set coll"
    using Cons.prems(2) by auto
  from Cons.IH [OF rest this] show ?case
    using t seen by (simp add: team_filter_key upsert_by_key)
qed

lemma store_player_tweets_storable:
  assumes "list_all (storable parse) tweets"
  shows "\<exists>new. store_player_tweets parse pid handle tweets coll = (coll @ new, None)
     \<and> player_key ` set (coll @ new)
         = player_key ` set coll \<union> {(Some pid, tid) | tid. Some tid \<in> tweet_id ` set tweets}
     \<and> (distinct (map player_key coll) \<longrightarrow> distinct (map player_key (coll @ new)))"
  using assms
proof (induction tweets arbitrary: coll)
  case Nil
  then show ?case by simp
next
  case (Cons t ts)
  then have st: "storable parse t" and rest: "list_all (storable parse) ts" by simp_all
  from st obtain tid created time where
    t: "tweet_id t = Some tid" "tweet_created_at t = Some created"
       "parse (replace_Z created) = Inr time"
    by (rule storable_cases)
  define doc where "doc = \<lparr>player_id = Some pid, source = ''twitter'', post_id = tid,
      posted_at = time, body = (case tweet_text t of None \<Rightarrow> [] | Some s \<Rightarrow> s), media = [],
      url = ''https://twitter.com/'' @ handle @ ''/status/'' @ tid\<rparr>"
  define coll1 where
    "coll1 = update_one_set_on_insert (\<lambda>d. player_key d = (Some pid, tid)) doc coll"
  define seen where "seen = {(Some pid, tid) | tid. Some tid \<in> tweet_id ` set ts}"
  have step: "store_player_tweets parse pid handle (t # ts) coll = store_player_tweets parse pid handle ts coll1"
    using t by (simp add: player_filter_key coll1_def doc_def)
  have key: "player_key doc = (Some pid, tid)" by (simp add: player_key_def doc_def)
  have "\<exists>mid. coll1 = coll @ mid
      \<and> player_key ` set coll1 = insert (Some pid, tid) (player_key ` set coll)
      \<and> (distinct (map player_key coll) \<longrightarrow> distinct (map player_key coll1))"
  proof (cases "(Some pid, tid) \<in> player_key ` set coll")
    case True
    then have "coll1 = coll" by (simp add: upsert_by_key coll1_def)
    with True show ?thesis by auto
  next
    case False
    then have "coll1 = coll @ [doc]" by (simp add: upsert_by_key coll1_def)
    with False key show ?thesis by simp
  qed
  then obtain mid where mid: "coll1 = coll @ mid"
    and mid_keys: "player_key ` set coll1 = insert (Some pid, tid) (player_key ` set coll)"
    and mid_dist: "distinct (map player_key coll) \<longrightarrow> distinct (map player_key coll1)"
    by (elim exE conjE)
  from Cons.IH [OF rest, of coll1] obtain new where
    new: "store_player_tweets parse pid handle ts coll1 = (coll1 @ new, None)"
    and new_keys: "player_key ` set (coll1 @ new) = player_key ` set coll1 \<union> seen"
    and new_dist: "distinct (map player_key coll1) \<longrightarrow> distinct (map player_key (coll1 @ new))"
    unfolding seen_def by (elim exE conjE)
  have all: "{(Some pid, tid) | tid. Some tid \<in> tweet_id ` set (t # ts)}
      = insert (Some pid, tid) seen"
    using t(1) unfolding seen_def by auto
  have "store_player_tweets parse pid handle (t # ts) coll = (coll @ (mid @ new), None)"
    using step new mid by simp
  moreover have "player_key ` set (coll @ (mid @ new))
      = player_key ` set coll \<union> {(Some pid, tid) | tid. Some tid \<in> tweet_id ` set (t # ts)}"
  proof -
    have "player_key ` set (coll @ (mid @ new)) = player_key ` set (coll1 @ new)"
      using mid by simp
    also have "\<dots> = insert (Some pid, tid) (player_key ` set coll) \<union> seen"
      using new_keys mid_keys by simp
    finally show ?thesis unfolding all by simp
  qed
  moreover have "distinct (map player_key coll) \<longrightarrow> distinct (map player_key (coll @ (mid @ new)))"
    using mid mid_dist new_dist by simp
  ultimately show ?case by (intro exI [of _ "mid @ new"] conjI)
qed

lemma store_player_tweets_seen:
  assumes "list_all (storable parse) tweets"
    and "\<forall>tid. Some tid \<in> tweet_id ` set tweets \<longrightarrow> (Some pid, tid) \<in> player_key ` set coll"
  shows "store_player_tweets parse pid handle tweets coll = (coll, None)"
  using assms
proof (induction tweets)
  case Nil
  then show ?case by simp
next
  case (Cons t ts)
  then have st: "storable parse t" and rest: "list_all (storable parse) ts" by simp_all
  from st obtain tid created time where
    t: "tweet_id t = Some tid" "tweet_created_at t = Some created"
       "parse (replace_Z created) = Inr time"
    by (rule storable_cases)
  have seen: "(Some pid, tid) \<in> player_key ` set coll"
    using Cons.prems(2) t(1) by (metis image_eqI list.set_intros(1))
  have "\<forall>tid. Some tid \<in> tweet_id ` set ts \<longrightarrow> (Some pid, tid) \<in> player_key ` set coll"
    using Cons.prems(2) by auto
  from Cons.IH [OF rest this] show ?case
    using t seen by (simp add: player_filter_key upsert_by_key)
qed

subsection \<open>The two fetch methods\<close>

lemma fetch_team_tweets_ok:
  assumes "user_by_username api team_twitter_username = Inr uid"
    and "user_tweets api uid = Inr tweets"
    and "list_all (storable parse) tweets"
  shows "\<exists>new. fetch_team_tweets api parse st
        = (Returned (), st\<lparr>team_news := team_news st @ new,
                            news_log := news_log st @ [Team_tweets_stored (length tweets)]\<rparr>)
     \<and> team_key ` set (team_news st @ new)
         = team_key ` set (team_news st)
           \<union> {(''twitter'', tid) | tid. Some tid \<in> tweet_id ` set tweets}
     \<and> (distinct (map team_key (team_news st))
          \<longrightarrow> distinct (map team_key (team_news st @ new)))"
proof -
  from store_team_tweets_storable [OF assms(3), of "team_news st"] obtain new where
    run: "store_team_tweets parse tweets (team_news st) = (team_news st @ new, None)"
    and rest: "team_key ` set (team_news st @ new)
         = team_key ` set (team_news st)
           \<union> {(''twitter'', tid) | tid. Some tid \<in> tweet_id ` set tweets}"
      "distinct (map team_key (team_news st))
          \<longrightarrow> distinct (map team_key (team_news st @ new))"
    by (elim exE conjE)
  have "fetch_team_tweets api parse st
        = (Returned (), st\<lparr>team_news := team_news st @ new,
                            news_log := news_log st @ [Team_tweets_stored (length tweets)]\<rparr>)"
    using assms(1,2) run by (simp add: fetch_team_tweets_def team_tweets_failed_def)
  with rest show ?thesis by (intro exI [of _ new] conjI)
qed

lemma fetch_team_tweets_seen:
  assumes "user_by_username api team_twitter_username = Inr uid"
    and "user_tweets api uid = Inr tweets"
    and "list_all (storable parse) tweets"
    and "\<forall>tid. Some tid \<in> tweet_id ` set tweets
            \<longrightarrow> (''twitter'', tid) \<in> team_key ` set (team_news st)"
  shows "team_news (snd (fetch_team_tweets api parse st)) = team_news st"
  using assms(1,2) store_team_tweets_seen [OF assms(3,4)]
  by (simp add: fetch_team_tweets_def team_tweets_failed_def)

lemma fetch_player_tweets_ok:
  assumes "get_twitter_handle players pid = Some handle" "handle \<noteq> []"
    and "user_by_username api handle = Inr uid"
    and "user_tweets api uid = Inr tweets"
    and "list_all (storable parse) tweets"
  shows "\<exists>new. fetch_player_tweets api parse players pid st
        = (Returned (), st\<lparr>player_news := player_news st @ new,
                            news_log := news_log st @ [Player_tweets_fetched pid (length tweets)]\<rparr>)
     \<and> player_key ` set (player_news st @ new)
         = player_key ` set (player_news st)
           \<union> {(Some pid, tid) | tid. Some tid \<in> tweet_id ` set tweets}
     \<and> (distinct (map player_key (player_news st))
          \<longrightarrow> distinct (map player_key (player_news st @ new)))"
proof -
  from store_player_tweets_storable [OF assms(5), of pid handle "player_news st"] obtain new where
    run: "store_player_tweets parse pid handle tweets (player_news st)
            = (player_news st @ new, None)"
    and rest: "player_key ` set (player_news st @ new)
         = player_key ` set (player_news st)
           \<union> {(Some pid, tid) | tid. Some tid \<in> tweet_id ` set tweets}"
      "distinct (map player_key (player_news st))
          \<longrightarrow> distinct (map player_key (player_news st @ new))"
    by (elim exE conjE)
  have "fetch_player_tweets api parse players pid st
        = (Returned (), st\<lparr>player_news := player_news st @ new,
                            news_log := news_log st @ [Player_tweets_fetched pid (length tweets)]\<rparr>)"
    using assms(1-4) run by (simp add: fetch_player_tweets_def player_tweets_failed_def)
  with rest show ?thesis by (intro exI [of _ new] conjI)
qed

lemma fetch_player_tweets_seen:
  assumes "get_twitter_handle players pid = Some handle" "handle \<noteq> []"
    and "user_by_username api handle = Inr uid"
    and "user_tweets api uid = Inr tweets"
    and "list_all (storable parse) tweets"
    and "\<forall>tid. Some tid \<in> tweet_id ` set tweets
            \<longrightarrow> (Some pid, tid) \<in> player_key ` set (player_news st)"
  shows "player_news (snd (fetch_player_tweets api parse players pid st)) = player_news st"
  using assms(1-4) store_player_tweets_seen [OF assms(5,6), of handle]
  by (simp add: fetch_player_tweets_def player_tweets_failed_def)

lemma fetch_team_tweets_reads_team_news:
  "team_news s = team_news s' \<Longrightarrow>
   team_news (snd (fetch_team_tweets api parse s)) = team_news (snd (fetch_team_tweets api parse s'))"
  by (simp add: fetch_team_tweets_def team_tweets_failed_def split: sum.splits prod.splits option.splits)

lemma fetch_player_tweets_reads_player_news:
  "player_news s = player_news s' \<Longrightarrow>
   player_news (snd (fetch_player_tweets api parse players pid s))
     = player_news (snd (fetch_player_tweets api parse players pid s'))"
  by (simp add: fetch_player_tweets_def player_tweets_failed_def split: sum.splits prod.splits option.splits)

text \<open>
  Whatever the API answers and whatever the items are, a fetch keeps the keys of a
  collection distinct. The collections start empty and nothing else writes to them, so
  they never hold two documents under one key.
\<close>

lemma upsert_keeps_distinct:
  "f doc = k \<Longrightarrow> distinct (map f coll) \<Longrightarrow>
   distinct (map f (update_one_set_on_insert (\<lambda>d. f d = k) doc coll))"
  by (auto simp: upsert_by_key)

lemma store_team_tweets_distinct:
  "distinct (map team_key coll) \<Longrightarrow>
   distinct (map team_key (fst (store_team_tweets parse tweets coll)))"
proof (induction tweets arbitrary: coll)
  case Nil
  then show ?case by simp
next
  case (Cons t ts)
  show ?case
  proof (cases "storable parse t")
    case False
    then show ?thesis using Cons.prems
      by (auto simp: storable_def split: option.splits sum.splits)
  next
    case True
    then obtain tid created time where
      t: "tweet_id t = Some tid" "tweet_created_at t = Some created"
         "parse (replace_Z created) = Inr time"
      by (rule storable_cases)
    define doc where "doc = \<lparr>player_id = None, source = ''twitter'', post_id = tid,
      posted_at = time, body = (case tweet_text t of None \<Rightarrow> [] | Some s \<Rightarrow> s), media = [],
      url = ''https://twitter.com/'' @ team_twitter_username @ ''/status/'' @ tid\<rparr>"
    have "team_key doc = (''twitter'', tid)" by (simp add: doc_def team_key_def)
    from upsert_keeps_distinct [OF this Cons.prems]
    have "distinct (map team_key (fst (store_team_tweets parse ts
        (update_one_set_on_insert (\<lambda>d. team_key d = (''twitter'', tid)) doc coll))))"
      by (rule Cons.IH)
    then show ?thesis using t by (simp add: team_filter_key doc_def)
  qed
qed

lemma store_player_tweets_distinct:
  "distinct (map player_key coll) \<Longrightarrow>
   distinct (map player_key (fst (store_player_tweets parse pid handle tweets coll)))"
proof (induction tweets arbitrary: coll)
  case Nil
  then show ?case by simp
next
  case (Cons t ts)
  show ?case
  proof (cases "storable parse t")
    case False
    then show ?thesis using Cons.prems
      by (auto simp: storable_def split: option.splits sum.splits)
  next
    case True
    then obtain tid created time where
      t: "tweet_id t = Some tid" "tweet_created_at t = Some created"
         "parse (replace_Z created) = Inr time"
      by (rule storable_cases)
    define doc where "doc = \<lparr>player_id = Some pid, source = ''twitter'', post_id = tid,
      posted_at = time, body = (case tweet_text t of None \<Rightarrow> [] | Some s \<Rightarrow> s), media = [],
      url = ''https://twitter.com/'' @ handle @ ''/status/'' @ tid\<rparr>"
    have "player_key doc = (Some pid, tid)" by (simp add: doc_def player_key_def)
    from upsert_keeps_distinct [OF this Cons.prems]
    have "distinct (map player_key (fst (store_player_tweets parse pid handle ts
        (update_one_set_on_insert (\<lambda>d. player_key d = (Some pid, tid)) doc coll))))"
      by (rule Cons.IH)
    then show ?thesis using t by (simp add: player_filter_key doc_def)
  qed
qed

lemma fetch_team_tweets_distinct:
  assumes "distinct (map team_key (team_news st))"
  shows "distinct (map team_key (team_news (snd (fetch_team_tweets api parse st))))"
proof (cases "user_by_username api team_twitter_username")
  case (Inl e)
  with assms show ?thesis by (simp add: fetch_team_tweets_def team_tweets_failed_def)
next
  case uid: (Inr uid)
  show ?thesis
  proof (cases "user_tweets api uid")
    case (Inl e)
    with uid assms show ?thesis by (simp add: fetch_team_tweets_def team_tweets_failed_def)
  next
    case (Inr tweets)
    from store_team_tweets_distinct [OF assms, of parse tweets]
    show ?thesis using uid Inr
      by (cases "store_team_tweets parse tweets (team_news st)")
         (auto simp: fetch_team_tweets_def team_tweets_failed_def split: option.splits)
  qed
qed

lemma fetch_player_tweets_distinct:
  assumes "distinct (map player_key (player_news st))"
  shows "distinct (map player_key
           (player_news (snd (fetch_player_tweets api parse players pid st))))"
proof (cases "get_twitter_handle players pid")
  case None
  with assms show ?thesis by (simp add: fetch_player_tweets_def player_tweets_failed_def)
next
  case (Some handle)
  show ?thesis
  proof (cases "handle = []")
    case True
    with Some assms show ?thesis by (simp add: fetch_player_tweets_def player_tweets_failed_def)
  next
    case ne: False
    show ?thesis
    proof (cases "user_by_username api handle")
      case (Inl e)
      with Some ne assms show ?thesis
        by (simp add: fetch_player_tweets_def player_tweets_failed_def)
    next
      case uid: (Inr uid)
      show ?thesis
      proof (cases "user_tweets api uid")
        case (Inl e)
        with Some ne uid assms show ?thesis
          by (simp add: fetch_player_tweets_def player_tweets_failed_def)
      next
        case (Inr tweets)
        from store_player_tweets_distinct [OF assms, of parse pid handle tweets]
        show ?thesis using Some ne uid Inr
          by (cases "store_player_tweets parse pid handle tweets (player_news st)")
             (auto simp: fetch_player_tweets_def player_tweets_failed_def split: option.splits)
      qed
    qed
  qed
qed

lemma team_ingestion:
  assumes api: "user_by_username api team_twitter_username = Inr uid"
      "user_tweets api uid = Inr tweets"
    and ok: "list_all (storable parse) tweets"
    and inv: "distinct (map team_key (team_news st))"
  shows "(\<exists>new. team_news (snd (fetch_team_tweets api parse st)) = team_news st @ new)
     \<and> distinct (map team_key (team_news (snd (fetch_team_tweets api parse st))))
     \<and> (\<forall>tid. Some tid \<in> tweet_id ` set tweets \<longrightarrow>
           length (filter (\<lambda>d. team_key d = (''twitter'', tid))
                     (team_news (snd (fetch_team_tweets api parse st)))) = 1)
     \<and> (\<forall>n. team_news (((\<lambda>s. snd (fetch_team_tweets api parse s)) ^^ Suc n) st)
              = team_news (snd (fetch_team_tweets api parse st)))
     \<and> (\<forall>api' uid' tweets'.
           user_by_username api' team_twitter_username = Inr uid'
           \<and> user_tweets api' uid' = Inr tweets' \<and> list_all (storable parse) tweets'
           \<and> tweet_id ` set tweets' \<subseteq> tweet_id ` set tweets \<longrightarrow>
           team_news (snd (fetch_team_tweets api' parse (snd (fetch_team_tweets api parse st))))
             = team_news (snd (fetch_team_tweets api parse st)))"
proof -
  define st1 where "st1 = snd (fetch_team_tweets api parse st)"
  from fetch_team_tweets_ok [OF api ok, of st] inv obtain new where
    new: "team_news st1 = team_news st @ new"
    and keys: "team_key ` set (team_news st1)
         = team_key ` set (team_news st)
           \<union> {(''twitter'', tid) | tid. Some tid \<in> tweet_id ` set tweets}"
    and dist: "distinct (map team_key (team_news st1))"
    unfolding st1_def by auto
  have once: "length (filter (\<lambda>d. team_key d = (''twitter'', tid)) (team_news st1)) = 1"
    if "Some tid \<in> tweet_id ` set tweets" for tid
  proof -
    from that keys have "(''twitter'', tid) \<in> team_key ` set (team_news st1)" by blast
    with dist show ?thesis by (rule stored_once)
  qed
  have later: "team_news (snd (fetch_team_tweets api' parse st1)) = team_news st1"
    if "user_by_username api' team_twitter_username = Inr uid'"
      "user_tweets api' uid' = Inr tweets'" "list_all (storable parse) tweets'"
      "tweet_id ` set tweets' \<subseteq> tweet_id ` set tweets"
    for api' uid' tweets'
  proof (rule fetch_team_tweets_seen [OF that(1-3)], intro allI impI)
    fix tid assume "Some tid \<in> tweet_id ` set tweets'"
    with that(4) have "Some tid \<in> tweet_id ` set tweets" by blast
    with keys show "(''twitter'', tid) \<in> team_key ` set (team_news st1)" by blast
  qed
  have again: "team_news (((\<lambda>s. snd (fetch_team_tweets api parse s)) ^^ Suc n) st) = team_news st1"
    for n
  proof (induction n)
    case 0
    show ?case by (simp add: st1_def)
  next
    case (Suc n)
    have "team_news (((\<lambda>s. snd (fetch_team_tweets api parse s)) ^^ Suc (Suc n)) st)
        = team_news (snd (fetch_team_tweets api parse
            (((\<lambda>s. snd (fetch_team_tweets api parse s)) ^^ Suc n) st)))"
      by simp
    also have "\<dots> = team_news (snd (fetch_team_tweets api parse st1))"
      by (rule fetch_team_tweets_reads_team_news [OF Suc.IH])
    also have "\<dots> = team_news st1"
      by (rule later [OF api ok]) simp
    finally show ?case .
  qed
  from new dist once again later show ?thesis
    unfolding st1_def by blast
qed

lemma player_ingestion:
  assumes reg: "get_twitter_handle players pid = Some handle" "handle \<noteq> []"
    and api: "user_by_username api handle = Inr uid" "user_tweets api uid = Inr tweets"
    and ok: "list_all (storable parse) tweets"
    and inv: "distinct (map player_key (player_news st))"
  shows "(\<exists>new. player_news (snd (fetch_player_tweets api parse players pid st))
                   = player_news st @ new)
     \<and> distinct (map player_key (player_news (snd (fetch_player_tweets api parse players pid st))))
     \<and> (\<forall>tid. Some tid \<in> tweet_id ` set tweets \<longrightarrow>
           length (filter (\<lambda>d. player_key d = (Some pid, tid))
                     (player_news (snd (fetch_player_tweets api parse players pid st)))) = 1)
     \<and> (\<forall>n. player_news (((\<lambda>s. snd (fetch_player_tweets api parse players pid s)) ^^ Suc n) st)
              = player_news (snd (fetch_player_tweets api parse players pid st)))
     \<and> (\<forall>api' uid' tweets'.
           user_by_username api' handle = Inr uid'
           \<and> user_tweets api' uid' = Inr tweets' \<and> list_all (storable parse) tweets'
           \<and> tweet_id ` set tweets' \<subseteq> tweet_id ` set tweets \<longrightarrow>
           player_news (snd (fetch_player_tweets api' parse players pid
               (snd (fetch_player_tweets api parse players pid st))))
             = player_news (snd (fetch_player_tweets api parse players pid st)))"
proof -
  define st1 where "st1 = snd (fetch_player_tweets api parse players pid st)"
  from fetch_player_tweets_ok [OF reg api ok, of st] inv obtain new where
    new: "player_news st1 = player_news st @ new"
    and keys: "player_key ` set (player_news st1)
         = player_key ` set (player_news st)
           \<union> {(Some pid, tid) | tid. Some tid \<in> tweet_id ` set tweets}"
    and dist: "distinct (map player_key (player_news st1))"
    unfolding st1_def by auto
  have once: "length (filter (\<lambda>d. player_key d = (Some pid, tid)) (player_news st1)) = 1"
    if "Some tid \<in> tweet_id ` set tweets" for tid
  proof -
    from that keys have "(Some pid, tid) \<in> player_key ` set (player_news st1)" by blast
    with dist show ?thesis by (rule stored_once)
  qed
  have later: "player_news (snd (fetch_player_tweets api' parse players pid st1)) = player_news st1"
    if "user_by_username api' handle = Inr uid'"
      "user_tweets api' uid' = Inr tweets'" "list_all (storable parse) tweets'"
      "tweet_id ` set tweets' \<subseteq> tweet_id ` set tweets"
    for api' uid' tweets'
  proof (rule fetch_player_tweets_seen [OF reg that(1-3)], intro allI impI)
    fix tid assume "Some tid \<in> tweet_id ` set tweets'"
    with that(4) have "Some tid \<in> tweet_id ` set tweets" by blast
    with keys show "(Some pid, tid) \<in> player_key ` set (player_news st1)" by blast
  qed
  have again: "player_news (((\<lambda>s. snd (fetch_player_tweets api parse players pid s)) ^^ Suc n) st)
      = player_news st1" for n
  proof (induction n)
    case 0
    show ?case by (simp add: st1_def)
  next
    case (Suc n)
    have "player_news (((\<lambda>s. snd (fetch_player_tweets api parse players pid s)) ^^ Suc (Suc n)) st)
        = player_news (snd (fetch_player_tweets api parse players pid
            (((\<lambda>s. snd (fetch_player_tweets api parse players pid s)) ^^ Suc n) st)))"
      by simp
    also have "\<dots> = player_news (snd (fetch_player_tweets api parse players pid st1))"
      by (rule fetch_player_tweets_reads_player_news [OF Suc.IH])
    also have "\<dots> = player_news st1"
      by (rule later [OF api ok]) simp
    finally show ?case .
  qed
  from new dist once again later show ?thesis
    unfolding st1_def by blast
qed

lemma fetch_player_tweets_returns:
  "fst (fetch_player_tweets api parse players pid st) = Returned ()"
  by (simp add: fetch_player_tweets_def player_tweets_failed_def split: sum.splits prod.splits option.splits)

lemma replace_Z_example: "replace_Z ''2025-05-01T12:00:00Z'' = ''2025-05-01T12:00:00+00:00''"
  by (simp add: replace_Z_def)

lemma storable_first_sighting: "list_all (storable parse_any) [first_sighting]"
  by (simp add: storable_def first_sighting_def parse_any_def)

lemma storable_later_sighting: "list_all (storable parse_any) [later_sighting]"
  by (simp add: storable_def later_sighting_def parse_any_def)

lemma fallen_handle: "get_twitter_handle example_registry ''fallen'' = Some ''FalleNCS''"
  by (simp add: get_twitter_handle_def example_registry_def)

lemma molodoy_handle: "get_twitter_handle example_registry ''molodoy'' = None"
  by (simp add: get_twitter_handle_def example_registry_def)

lemma first_team_fetch:
  "team_news (snd (fetch_team_tweets (api_answering [first_sighting]) parse_any empty_news))
     = [\<lparr>player_id = None, source = ''twitter'', post_id = ''1001'', posted_at = 25,
         body = ''GG'', media = [], url = ''https://twitter.com/FURIA/status/1001''\<rparr>]"
  by (simp add: fetch_team_tweets_def team_tweets_failed_def api_answering_def first_sighting_def parse_any_def
      replace_Z_example update_one_set_on_insert_def empty_news_def team_twitter_username_def)

lemma first_player_fetch:
  "player_news (snd (fetch_player_tweets (api_answering [first_sighting]) parse_any
       example_registry ''fallen'' empty_news))
     = [\<lparr>player_id = Some ''fallen'', source = ''twitter'', post_id = ''1001'', posted_at = 25,
         body = ''GG'', media = [], url = ''https://twitter.com/FalleNCS/status/1001''\<rparr>]"
  by (simp add: fetch_player_tweets_def player_tweets_failed_def fallen_handle api_answering_def first_sighting_def
      parse_any_def replace_Z_example update_one_set_on_insert_def empty_news_def)

text \<open>
  \<^bold>\<open>C5.\<close> Ingestion is idempotent by uniqueness key. The collection holds at most one
  document per key (as the empty collection does, and as every fetch keeps it: lemmas
  \<open>fetch_team_tweets_distinct\<close>, \<open>fetch_player_tweets_distinct\<close>), the API
  answers, and every item of the answer can be stored. Then after
  \<^verbatim>\<open>fetch_team_tweets\<close> the documents that were there are still there, unchanged and in
  place; the keys are still distinct; every id of the answer has exactly one document
  under the key (source \<^verbatim>\<open>twitter\<close>, id); running the same fetch any number of times more
  gives the same collection; and so does a later fetch whose items carry ids seen
  before, whatever their content. The same holds for \<^verbatim>\<open>fetch_player_tweets\<close> of a
  player with a configured handle, with the key (player id, id).
\<close>

theorem ingestion_idempotent:
  "(user_by_username api team_twitter_username = Inr uid \<and> user_tweets api uid = Inr tweets
      \<and> list_all (storable parse) tweets \<and> distinct (map team_key (team_news st)) \<longrightarrow>
     (\<exists>new. team_news (snd (fetch_team_tweets api parse st)) = team_news st @ new)
     \<and> distinct (map team_key (team_news (snd (fetch_team_tweets api parse st))))
     \<and> (\<forall>tid. Some tid \<in> tweet_id ` set tweets \<longrightarrow>
           length (filter (\<lambda>d. team_key d = (''twitter'', tid))
                     (team_news (snd (fetch_team_tweets api parse st)))) = 1)
     \<and> (\<forall>n. team_news (((\<lambda>s. snd (fetch_team_tweets api parse s)) ^^ Suc n) st)
              = team_news (snd (fetch_team_tweets api parse st)))
     \<and> (\<forall>api' uid' tweets'.
           user_by_username api' team_twitter_username = Inr uid'
           \<and> user_tweets api' uid' = Inr tweets' \<and> list_all (storable parse) tweets'
           \<and> tweet_id ` set tweets' \<subseteq> tweet_id ` set tweets \<longrightarrow>
           team_news (snd (fetch_team_tweets api' parse (snd (fetch_team_tweets api parse st))))
             = team_news (snd (fetch_team_tweets api parse st))))
   \<and> (get_twitter_handle players pid = Some handle \<and> handle \<noteq> []
      \<and> user_by_username api handle = Inr uid \<and> user_tweets api uid = Inr tweets
      \<and> list_all (storable parse) tweets \<and> distinct (map player_key (player_news st)) \<longrightarrow>
     (\<exists>new. player_news (snd (fetch_player_tweets api parse players pid st))
                   = player_news st @ new)
     \<and> distinct (map player_key (player_news (snd (fetch_player_tweets api parse players pid st))))
     \<and> (\<forall>tid. Some tid \<in> tweet_id ` set tweets \<longrightarrow>
           length (filter (\<lambda>d. player_key d = (Some pid, tid))
                     (player_news (snd (fetch_player_tweets api parse players pid st)))) = 1)
     \<and> (\<forall>n. player_news (((\<lambda>s. snd (fetch_player_tweets api parse players pid s)) ^^ Suc n) st)
              = player_news (snd (fetch_player_tweets api parse players pid st)))
     \<and> (\<forall>api' uid' tweets'.
           user_by_username api' handle = Inr uid'
           \<and> user_tweets api' uid' = Inr tweets' \<and> list_all (storable parse) tweets'
           \<and> tweet_id ` set tweets' \<subseteq> tweet_id ` set tweets \<longrightarrow>
           player_news (snd (fetch_player_tweets api' parse players pid
               (snd (fetch_player_tweets api parse players pid st))))
             = player_news (snd (fetch_player_tweets api parse players pid st))))"
proof (rule conjI; rule impI)
  assume "user_by_username api team_twitter_username = Inr uid \<and> user_tweets api uid = Inr tweets
      \<and> list_all (storable parse) tweets \<and> distinct (map team_key (team_news st))"
  then have h: "user_by_username api team_twitter_username = Inr uid"
    "user_tweets api uid = Inr tweets" "list_all (storable parse) tweets"
    "distinct (map team_key (team_news st))"
    by simp_all
  show "(\<exists>new. team_news (snd (fetch_team_tweets api parse st)) = team_news st @ new)
     \<and> distinct (map team_key (team_news (snd (fetch_team_tweets api parse st))))
     \<and> (\<forall>tid. Some tid \<in> tweet_id ` set tweets \<longrightarrow>
           length (filter (\<lambda>d. team_key d = (''twitter'', tid))
                     (team_news (snd (fetch_team_tweets api parse st)))) = 1)
     \<and> (\<forall>n. team_news (((\<lambda>s. snd (fetch_team_tweets api parse s)) ^^ Suc n) st)
              = team_news (snd (fetch_team_tweets api parse st)))
     \<and> (\<forall>api' uid' tweets'.
           user_by_username api' team_twitter_username = Inr uid'
           \<and> user_tweets api' uid' = Inr tweets' \<and> list_all (storable parse) tweets'
           \<and> tweet_id ` set tweets' \<subseteq> tweet_id ` set tweets \<longrightarrow>
           team_news (snd (fetch_team_tweets api' parse (snd (fetch_team_tweets api parse st))))
             = team_news (snd (fetch_team_tweets api parse st)))"
    by (rule team_ingestion [OF h])
next
  assume "get_twitter_handle players pid = Some handle \<and> handle \<noteq> []
      \<and> user_by_username api handle = Inr uid \<and> user_tweets api uid = Inr tweets
      \<and> list_all (storable parse) tweets \<and> distinct (map player_key (player_news st))"
  then have h: "get_twitter_handle players pid = Some handle" "handle \<noteq> []"
    "user_by_username api handle = Inr uid" "user_tweets api uid = Inr tweets"
    "list_all (storable parse) tweets" "distinct (map player_key (player_news st))"
    by simp_all
  show "(\<exists>new. player_news (snd (fetch_player_tweets api parse players pid st))
                   = player_news st @ new)
     \<and> distinct (map player_key (player_news (snd (fetch_player_tweets api parse players pid st))))
     \<and> (\<forall>tid. Some tid \<in> tweet_id ` set tweets \<longrightarrow>
           length (filter (\<lambda>d. player_key d = (Some pid, tid))
                     (player_news (snd (fetch_player_tweets api parse players pid st)))) = 1)
     \<and> (\<forall>n. player_news (((\<lambda>s. snd (fetch_player_tweets api parse players pid s)) ^^ Suc n) st)
              = player_news (snd (fetch_player_tweets api parse players pid st)))
     \<and> (\<forall>api' uid' tweets'.
           user_by_username api' handle = Inr uid'
           \<and> user_tweets api' uid' = Inr tweets' \<and> list_all (storable parse) tweets'
           \<and> tweet_id ` set tweets' \<subseteq> tweet_id ` set tweets \<longrightarrow>
           player_news (snd (fetch_player_tweets api' parse players pid
               (snd (fetch_player_tweets api parse players pid st))))
             = player_news (snd (fetch_player_tweets api parse players pid st)))"
    by (rule player_ingestion [OF h])
qed

theorem ingestion_idempotent_witness:
  "user_by_username (api_answering [first_sighting]) team_twitter_username = Inr ''42''
   \<and> user_by_username (api_answering [first_sighting]) ''FalleNCS'' = Inr ''42''
   \<and> user_tweets (api_answering [first_sighting]) ''42'' = Inr [first_sighting]
   \<and> list_all (storable parse_any) [first_sighting]
   \<and> distinct (map team_key (team_news empty_news))
   \<and> distinct (map player_key (player_news empty_news))
   \<and> get_twitter_handle example_registry ''fallen'' = Some ''FalleNCS''
   \<and> tweet_id ` set [later_sighting] \<subseteq> tweet_id ` set [first_sighting]
   \<and> tweet_text later_sighting \<noteq> tweet_text first_sighting
   \<and> team_news (snd (fetch_team_tweets (api_answering [later_sighting]) parse_any
        (snd (fetch_team_tweets (api_answering [first_sighting]) parse_any empty_news))))
      = [\<lparr>player_id = None, source = ''twitter'', post_id = ''1001'', posted_at = 25,
          body = ''GG'', media = [], url = ''https://twitter.com/FURIA/status/1001''\<rparr>]
   \<and> player_news (snd (fetch_player_tweets (api_answering [later_sighting]) parse_any
        example_registry ''fallen''
        (snd (fetch_player_tweets (api_answering [first_sighting]) parse_any
           example_registry ''fallen'' empty_news))))
      = [\<lparr>player_id = Some ''fallen'', source = ''twitter'', post_id = ''1001'', posted_at = 25,
          body = ''GG'', media = [], url = ''https://twitter.com/FalleNCS/status/1001''\<rparr>]"
proof -
  let ?api = "api_answering [first_sighting]" and ?api' = "api_answering [later_sighting]"
  have a: "user_by_username ?api team_twitter_username = Inr ''42''"
    "user_by_username ?api ''FalleNCS'' = Inr ''42''"
    "user_tweets ?api ''42'' = Inr [first_sighting]"
    by (simp_all add: api_answering_def)
  have a': "user_by_username ?api' team_twitter_username = Inr ''42''"
    "user_by_username ?api' ''FalleNCS'' = Inr ''42''"
    "user_tweets ?api' ''42'' = Inr [later_sighting]"
    by (simp_all add: api_answering_def)
  have d: "distinct (map team_key (team_news empty_news))"
    "distinct (map player_key (player_news empty_news))"
    by (simp_all add: empty_news_def)
  have sub: "tweet_id ` set [later_sighting] \<subseteq> tweet_id ` set [first_sighting]"
    by (simp add: later_sighting_def first_sighting_def)
  have diff: "tweet_text later_sighting \<noteq> tweet_text first_sighting"
    by (simp add: later_sighting_def first_sighting_def)
  have ne: "''FalleNCS'' \<noteq> []" by simp
  note inst = ingestion_idempotent [of ?api "''42''" "[first_sighting]" parse_any empty_news
      example_registry "''fallen''" "''FalleNCS''"]
  from inst a(1,3) storable_first_sighting d(1)
  have "\<forall>api' uid' tweets'.
           user_by_username api' team_twitter_username = Inr uid'
           \<and> user_tweets api' uid' = Inr tweets' \<and> list_all (storable parse_any) tweets'
           \<and> tweet_id ` set tweets' \<subseteq> tweet_id ` set [first_sighting] \<longrightarrow>
           team_news (snd (fetch_team_tweets api' parse_any
               (snd (fetch_team_tweets ?api parse_any empty_news))))
             = team_news (snd (fetch_team_tweets ?api parse_any empty_news))"
    by blast
  with a'(1,3) storable_later_sighting sub
  have team: "team_news (snd (fetch_team_tweets ?api' parse_any
               (snd (fetch_team_tweets ?api parse_any empty_news))))
             = team_news (snd (fetch_team_tweets ?api parse_any empty_news))"
    by blast
  from inst fallen_handle ne a(2,3) storable_first_sighting d(2)
  have "\<forall>api' uid' tweets'.
           user_by_username api' ''FalleNCS'' = Inr uid'
           \<and> user_tweets api' uid' = Inr tweets' \<and> list_all (storable parse_any) tweets'
           \<and> tweet_id ` set tweets' \<subseteq> tweet_id ` set [first_sighting] \<longrightarrow>
           player_news (snd (fetch_player_tweets api' parse_any example_registry ''fallen''
               (snd (fetch_player_tweets ?api parse_any example_registry ''fallen'' empty_news))))
             = player_news (snd (fetch_player_tweets ?api parse_any example_registry ''fallen''
                 empty_news))"
    by blast
  with a'(2,3) storable_later_sighting sub
  have player: "player_news (snd (fetch_player_tweets ?api' parse_any example_registry ''fallen''
               (snd (fetch_player_tweets ?api parse_any example_registry ''fallen'' empty_news))))
             = player_news (snd (fetch_player_tweets ?api parse_any example_registry ''fallen''
                 empty_news))"
    by blast
  show ?thesis
    using a storable_first_sighting d fallen_handle sub diff
    by (simp only: team player first_team_fetch first_player_fetch) simp
qed

text \<open>
  \<^bold>\<open>C6\<close>, as amended. When the registry has no handle for the player (no entry, no
  \<^verbatim>\<open>twitter\<close> key, or the empty string), \<^verbatim>\<open>fetch_player_tweets\<close> does not crash: it
  returns \<^verbatim>\<open>None\<close>, calls no API, writes to no collection, and logs the
  \<^verbatim>\<open>ValueError\<close> that names the player. A failed lookup of a configured handle also
  returns \<^verbatim>\<open>None\<close> and writes to no collection; the two differ in the logged exception
  only. No call of the method raises.
\<close>

theorem unconfigured_handle_amended:
  "(get_twitter_handle players pid = None \<or> get_twitter_handle players pid = Some [] \<longrightarrow>
      fetch_player_tweets api parse players pid st
        = (Returned (),
           st\<lparr>news_log := news_log st @ [Player_tweets_error pid (Handle_not_configured pid)]\<rparr>))
   \<and> (get_twitter_handle players pid = Some handle \<and> handle \<noteq> []
        \<and> user_by_username api handle = Inl e \<longrightarrow>
      fetch_player_tweets api parse players pid st
        = (Returned (), st\<lparr>news_log := news_log st @ [Player_tweets_error pid e]\<rparr>))
   \<and> fst (fetch_player_tweets api parse players pid st) = Returned ()"
  by (auto simp: fetch_player_tweets_def player_tweets_failed_def split: sum.splits prod.splits option.splits)

theorem unconfigured_handle_amended_witness:
  "get_twitter_handle example_registry ''molodoy'' = None
   \<and> fetch_player_tweets api_unavailable parse_any example_registry ''molodoy'' empty_news
      = (Returned (),
         empty_news\<lparr>news_log := news_log empty_news
            @ [Player_tweets_error ''molodoy'' (Handle_not_configured ''molodoy'')]\<rparr>)
   \<and> get_twitter_handle example_registry ''fallen'' = Some ''FalleNCS''
   \<and> ''FalleNCS'' \<noteq> []
   \<and> user_by_username api_unavailable ''FalleNCS'' = Inl (Request_error ''503'')
   \<and> fetch_player_tweets api_unavailable parse_any example_registry ''fallen'' empty_news
      = (Returned (),
         empty_news\<lparr>news_log := news_log empty_news
            @ [Player_tweets_error ''fallen'' (Request_error ''503'')]\<rparr>)"
proof -
  have u: "user_by_username api_unavailable ''FalleNCS'' = Inl (Request_error ''503'')"
    by (simp add: api_unavailable_def)
  have ne: "''FalleNCS'' \<noteq> []" by simp
  from unconfigured_handle_amended
    [of example_registry "''molodoy''" api_unavailable parse_any empty_news "''x''"
       "Request_error ''503''"]
    molodoy_handle
  have one: "fetch_player_tweets api_unavailable parse_any example_registry ''molodoy'' empty_news
      = (Returned (),
         empty_news\<lparr>news_log := news_log empty_news
            @ [Player_tweets_error ''molodoy'' (Handle_not_configured ''molodoy'')]\<rparr>)"
    by blast
  from unconfigured_handle_amended
    [of example_registry "''fallen''" api_unavailable parse_any empty_news "''FalleNCS''"
       "Request_error ''503''"]
    fallen_handle ne u
  have two: "fetch_player_tweets api_unavailable parse_any example_registry ''fallen'' empty_news
      = (Returned (),
         empty_news\<lparr>news_log := news_log empty_news
            @ [Player_tweets_error ''fallen'' (Request_error ''503'')]\<rparr>)"
    by blast
  from molodoy_handle fallen_handle ne u one two show ?thesis by blast
qed

text \<open>
  \<^bold>\<open>C6\<close> as stated fails: for a player without a handle and for a player whose handle
  is configured while the API is down, the caller gets the same value, \<^verbatim>\<open>None\<close>, no
  exception, and the same two collections.
\<close>

theorem unconfigured_handle_counterexample:
  "get_twitter_handle example_registry ''molodoy'' = None
   \<and> get_twitter_handle example_registry ''fallen'' = Some ''FalleNCS''
   \<and> user_by_username api_unavailable ''FalleNCS'' = Inl (Request_error ''503'')
   \<and> fst (fetch_player_tweets api_unavailable parse_any example_registry ''molodoy'' empty_news)
      = Returned ()
   \<and> fst (fetch_player_tweets api_unavailable parse_any example_registry ''fallen'' empty_news)
      = Returned ()
   \<and> player_news (snd (fetch_player_tweets api_unavailable parse_any example_registry
        ''molodoy'' empty_news))
      = player_news (snd (fetch_player_tweets api_unavailable parse_any example_registry
        ''fallen'' empty_news))
   \<and> team_news (snd (fetch_player_tweets api_unavailable parse_any example_registry
        ''molodoy'' empty_news))
      = team_news (snd (fetch_player_tweets api_unavailable parse_any example_registry
        ''fallen'' empty_news))"
  by (simp add: fetch_player_tweets_def player_tweets_failed_def molodoy_handle fallen_handle api_unavailable_def
      empty_news_def)

end
